theory Spec2Isabelle
  imports Complex_Main "HOL-Library.Sublist"
begin

section \<open>Rate-limit rule normalisation (pkg/config/config.go)\<close>

text \<open>
  \<^verbatim>\<open>RateLimitRule\<close> of the configuration package. Go's \<^verbatim>\<open>float64\<close> rate is a
  rational here (every rate used below is a dyadic rational, which a \<^verbatim>\<open>float64\<close>
  holds exactly), Go's \<^verbatim>\<open>int\<close> is \<^typ>\<open>int\<close>, and a \<^verbatim>\<open>time.Duration\<close> is its
  number of nanoseconds.
\<close>

record RateLimitRule =
  RequestsPerSecond :: rat
  RequestsPerMinute :: int
  BurstSize :: int
  BlockDuration :: int

definition Second :: int where
  "Second = 1000000000"

text \<open>Go's conversion \<^verbatim>\<open>int(x)\<close> of a float: the fraction is dropped, towards zero.\<close>

definition go_int :: "rat \<Rightarrow> int" where
  "go_int x = (if 0 \<le> x then \<lfloor>x\<rfloor> else \<lceil>x\<rceil>)"

definition GetRequestsPerSecond :: "RateLimitRule \<Rightarrow> rat" where
  "GetRequestsPerSecond r =
     (if RequestsPerSecond r > 0 then RequestsPerSecond r
      else if RequestsPerMinute r > 0 then of_int (RequestsPerMinute r) / 60
      else 1)"

definition GetBurstSize :: "RateLimitRule \<Rightarrow> int" where
  "GetBurstSize r =
     (if BurstSize r > 0 then BurstSize r
      else let burst = go_int (GetRequestsPerSecond r)
           in if burst < 1 then 1 else burst)"

definition GetBlockDuration :: "RateLimitRule \<Rightarrow> int" where
  "GetBlockDuration r =
     (if BlockDuration r > 0 then BlockDuration r else 60 * Second)"

section \<open>The execute_python tool (pkg/tool/execute_python.go)\<close>

subsection \<open>Go library helpers\<close>

definition NL :: char where
  "NL = CHR 0x0A"

text \<open>\<^verbatim>\<open>strconv.Itoa\<close> and the verb \<^verbatim>\<open>%d\<close>: the decimal digits, with a minus sign.\<close>

function dec_nat :: "nat \<Rightarrow> string" where
  "dec_nat n =
     (if n < 10 then [''0123456789'' ! n]
      else dec_nat (n div 10) @ [''0123456789'' ! (n mod 10)])"
  by pat_completeness auto
termination
  by (relation "measure (\<lambda>n. n)") auto

declare dec_nat.simps [simp del]

definition Itoa :: "int \<Rightarrow> string" where
  "Itoa i = (if i < 0 then CHR ''-'' # dec_nat (nat (- i)) else dec_nat (nat i))"

text \<open>\<^verbatim>\<open>strconv.Atoi\<close>: an optional sign, then decimal digits only, within 64 bits.\<close>

definition digit_val :: "char \<Rightarrow> int option" where
  "digit_val c =
     (let n = (of_char c :: nat)
      in if 48 \<le> n \<and> n \<le> 57 then Some (int n - 48) else None)"

fun parse_digits :: "int \<Rightarrow> string \<Rightarrow> int option" where
  "parse_digits acc [] = Some acc"
| "parse_digits acc (c # cs) =
     (case digit_val c of None \<Rightarrow> None | Some d \<Rightarrow> parse_digits (acc * 10 + d) cs)"

definition Atoi :: "string \<Rightarrow> int option" where
  "Atoi s =
     (let neg = (s \<noteq> [] \<and> hd s = CHR ''-'');
          ds = (if s \<noteq> [] \<and> (hd s = CHR ''-'' \<or> hd s = CHR ''+'') then tl s else s)
      in if ds = [] then None
         else case parse_digits 0 ds of
                None \<Rightarrow> None
              | Some n \<Rightarrow>
                  let v = (if neg then - n else n)
                  in if v < - (2 ^ 63) \<or> 2 ^ 63 - 1 < v then None else Some v)"

text \<open>\<^verbatim>\<open>strings.Join\<close>.\<close>

fun Join :: "string list \<Rightarrow> string \<Rightarrow> string" where
  "Join [] sep = []"
| "Join [x] sep = x"
| "Join (x # y # ys) sep = x @ sep @ Join (y # ys) sep"

text \<open>
  The argument accessors of the MCP request (\<^verbatim>\<open>RequireString\<close>, \<^verbatim>\<open>GetInt\<close>,
  \<^verbatim>\<open>GetString\<close> of the mcp-go library). An argument decoded from JSON is a string, a
  number (\<^verbatim>\<open>float64\<close>), an \<^verbatim>\<open>int\<close> set by a Go caller, or something else.
\<close>

datatype argval = AString string | ANumber rat | AInt int | AOther

datatype arg_error = ArgNotFound string | ArgNotString string

definition RequireString :: "(string \<rightharpoonup> argval) \<Rightarrow> string \<Rightarrow> arg_error + string" where
  "RequireString args key =
     (case args key of
        None \<Rightarrow> Inl (ArgNotFound key)
      | Some (AString s) \<Rightarrow> Inr s
      | Some _ \<Rightarrow> Inl (ArgNotString key))"

definition GetInt :: "(string \<rightharpoonup> argval) \<Rightarrow> string \<Rightarrow> int \<Rightarrow> int" where
  "GetInt args key defaultValue =
     (case args key of
        Some (AInt v) \<Rightarrow> v
      | Some (ANumber v) \<Rightarrow> go_int v
      | Some (AString s) \<Rightarrow> (case Atoi s of Some i \<Rightarrow> i | None \<Rightarrow> defaultValue)
      | _ \<Rightarrow> defaultValue)"

definition GetString :: "(string \<rightharpoonup> argval) \<Rightarrow> string \<Rightarrow> string \<Rightarrow> string" where
  "GetString args key defaultValue =
     (case args key of Some (AString s) \<Rightarrow> s | _ \<Rightarrow> defaultValue)"

text \<open>
  What the Go libraries print is taken as given: \<open>fmt_float p x\<close> is the output of the
  verb \<^verbatim>\<open>%.pf\<close> for \<open>x\<close>, \<open>duration_round_string d\<close> the output of \<^verbatim>\<open>%s\<close> for
  \<^verbatim>\<open>d.Round(time.Second)\<close>, and \<open>arg_error_text e\<close> the text of an accessor's error.
\<close>

record go_lib =
  fmt_float :: "nat \<Rightarrow> rat \<Rightarrow> string"
  duration_round_string :: "int \<Rightarrow> string"
  arg_error_text :: "arg_error \<Rightarrow> string"

subsection \<open>Configuration\<close>

text \<open>
  The fields of the configuration that the tool reads: the Grafana connection
  (pkg/grafana/config.go), the S3 storage (nil when not configured) and the sandbox.
\<close>

record GrafanaConfig =
  URL :: string
  ServiceToken :: string
  GrafanaTimeout :: int

record StorageConfig =
  Endpoint :: string
  AccessKey :: string
  SecretKey :: string
  Bucket :: string
  Region :: string
  PublicURLPrefix :: string

record SandboxConfig =
  Image :: string
  Timeout :: int

record Config =
  Grafana :: GrafanaConfig
  Storage :: "StorageConfig option"
  Sandbox :: SandboxConfig



subsection \<open>The sandbox environment\<close>

definition buildSandboxEnv :: "Config \<Rightarrow> (string \<rightharpoonup> string)" where
  "buildSandboxEnv cfg =
     (let env = [''XATU_GRAFANA_URL'' \<mapsto> URL (Grafana cfg),
                 ''XATU_GRAFANA_TOKEN'' \<mapsto> ServiceToken (Grafana cfg),
                 ''XATU_HTTP_TIMEOUT'' \<mapsto> Itoa (GrafanaTimeout (Grafana cfg))]
      in case Storage cfg of
           None \<Rightarrow> env
         | Some st \<Rightarrow>
             (let env' = env(''XATU_S3_ENDPOINT'' \<mapsto> Endpoint st,
                            ''XATU_S3_ACCESS_KEY'' \<mapsto> AccessKey st,
                            ''XATU_S3_SECRET_KEY'' \<mapsto> SecretKey st,
                            ''XATU_S3_BUCKET'' \<mapsto> Bucket st,
                            ''XATU_S3_REGION'' \<mapsto> Region st)
              in if PublicURLPrefix st \<noteq> []
                 then env'(''XATU_S3_PUBLIC_URL_PREFIX'' \<mapsto> PublicURLPrefix st)
                 else env'))"


subsection \<open>The execution request and its result (the sandbox service's interface)\<close>

record ExecuteRequest =
  Code :: string
  Env :: "string \<rightharpoonup> string"
  ReqTimeout :: int
  SessionID :: string
  OwnerID :: string

record SessionFile =
  Name :: string
  Size :: int

record ExecutionResult =
  Stdout :: string
  Stderr :: string
  ExitCode :: int
  ExecutionID :: string
  OutputFiles :: "string list"
  DurationSeconds :: rat
  ResultSessionID :: string
  SessionFiles :: "SessionFile list"
  SessionTTLRemaining :: int

text \<open>
  The tool result, built by the helpers \<^verbatim>\<open>CallToolError\<close> and \<^verbatim>\<open>CallToolSuccess\<close>
  of the tool package: the value records which of the two built it, and from what text.
\<close>

datatype CallToolResult = CallToolError string | CallToolSuccess string

definition MaxTimeout :: int where
  "MaxTimeout = 300"

definition MinTimeout :: int where
  "MinTimeout = 1"

definition resourceTipMessage :: string where
  "resourceTipMessage =
     [NL, CHR 0xF0, CHR 0x9F, CHR 0x92, CHR 0xA1]
     @ '' TIP: Read these MCP resources for available datasources and schemas:'' @ [NL]
     @ ''   - datasources://list - available datasource UIDs'' @ [NL]
     @ ''   - datasources://clickhouse - ClickHouse datasources only'' @ [NL]
     @ ''   - clickhouse-schema://{cluster}/{table} - table schema (if schema discovery enabled)''
     @ [NL]
     @ ''   - api://xatu - Python library documentation'' @ [NL]
     @ ''   - networks://active - available networks''"

subsection \<open>Formatting the result\<close>

text \<open>
  The loop of \<^verbatim>\<open>formatSize\<close>: \<open>n\<close> is divided by 1024 while it is at least 1024,
  \<open>d\<close> and \<open>e\<close> are the divisor and the exponent so far.
\<close>

function formatSize_loop :: "int \<Rightarrow> int \<Rightarrow> nat \<Rightarrow> int \<times> nat" where
  "formatSize_loop n d e =
     (if n \<ge> 1024 then formatSize_loop (n div 1024) (d * 1024) (Suc e) else (d, e))"
  by pat_completeness auto
termination
  by (relation "measure (\<lambda>(n, d, e). nat n)") auto

declare formatSize_loop.simps [simp del]

text \<open>
  A size is an \<^verbatim>\<open>int64\<close>, so the exponent stays below 6 and the index into
  \<^verbatim>\<open>"KMGTPE"\<close> is in range.
\<close>

definition formatSize :: "go_lib \<Rightarrow> int \<Rightarrow> string" where
  "formatSize lib bytes =
     (if bytes < 1024 then Itoa bytes @ '' B''
      else case formatSize_loop (bytes div 1024) 1024 0 of
             (d, e) \<Rightarrow> fmt_float lib 1 (of_int bytes / of_int d) @ '' '' @ [''KMGTPE'' ! e] @ ''B'')"

definition formatExecutionResult :: "go_lib \<Rightarrow> ExecutionResult \<Rightarrow> Config \<Rightarrow> string" where
  "formatExecutionResult lib result cfg =
     (let parts1 = (if Stdout result \<noteq> [] then [''[stdout]'' @ [NL] @ Stdout result] else []);
          parts2 = parts1 @ (if Stderr result \<noteq> [] then [''[stderr]'' @ [NL] @ Stderr result] else []);
          parts3 = parts2 @ (if OutputFiles result \<noteq> []
                             then [''[files] '' @ Join (OutputFiles result) '', ''] else []);
          parts4 = parts3 @
            (if ResultSessionID result \<noteq> [] then
               [''[session] id='' @ ResultSessionID result @ '' ttl=''
                  @ duration_round_string lib (SessionTTLRemaining result)
                  @ (if SessionFiles result \<noteq> [] then
                       '' workspace=[''
                         @ Join (map (\<lambda>f. Name f @ ''('' @ formatSize lib (Size f) @ '')'')
                                  (SessionFiles result)) '', ''
                         @ '']''
                     else [])]
             else []);
          parts5 = parts4 @
            [''[exit='' @ Itoa (ExitCode result) @ '' duration=''
               @ fmt_float lib 2 (DurationSeconds result) @ ''s id='' @ ExecutionID result @ '']''];
          parts6 = parts5 @
            (case Storage cfg of
               None \<Rightarrow> []
             | Some st \<Rightarrow>
                 if sublist ''localhost'' (PublicURLPrefix st) \<and> sublist ''localhost'' (Stdout result)
                 then [''[note] Storage URLs use localhost - these are accessible if running the server locally.'']
                 else [])
      in Join parts6 [NL])"

subsection \<open>The handler\<close>

text \<open>
  \<^verbatim>\<open>newExecutePythonHandler\<close>. The sandbox service is the function \<open>execute\<close>: one call
  of \<^verbatim>\<open>Execute\<close> returns an error (its text, \<open>Inl\<close>) or a result. \<open>user\<close> is the
  GitHub id of the authenticated user, if there is one, and \<open>tips\<close> is the set of keys
  stored in \<^verbatim>\<open>sessionsWithResourceTip\<close>. The outcome holds the tool result, the
  requests passed to \<^verbatim>\<open>Execute\<close> (none or one), and the keys stored afterwards.
\<close>

record handler_outcome =
  tool_result :: CallToolResult
  executed :: "ExecuteRequest list"
  tips_after :: "string set"

definition newExecutePythonHandler ::
  "go_lib \<Rightarrow> (ExecuteRequest \<Rightarrow> string + ExecutionResult) \<Rightarrow> Config \<Rightarrow> int option \<Rightarrow>
   string set \<Rightarrow> (string \<rightharpoonup> argval) \<Rightarrow> handler_outcome" where
  "newExecutePythonHandler lib execute cfg user tips args =
     (case RequireString args ''code'' of
        Inl err \<Rightarrow>
          \<lparr>tool_result = CallToolError (''invalid arguments: '' @ arg_error_text lib err),
           executed = [], tips_after = tips\<rparr>
      | Inr code \<Rightarrow>
          if code = [] then
            \<lparr>tool_result = CallToolError ''code is required'', executed = [], tips_after = tips\<rparr>
          else
            let timeout = GetInt args ''timeout'' (Timeout (Sandbox cfg)) in
            if timeout < MinTimeout \<or> timeout > MaxTimeout then
              \<lparr>tool_result = CallToolError (''timeout must be between '' @ Itoa MinTimeout
                   @ '' and '' @ Itoa MaxTimeout @ '' seconds''),
               executed = [], tips_after = tips\<rparr>
            else
              let sessionID = GetString args ''session_id'' [];
                  ownerID = (case user of None \<Rightarrow> [] | Some gid \<Rightarrow> Itoa gid);
                  env = buildSandboxEnv cfg;
                  req = \<lparr>Code = code, Env = env, ReqTimeout = timeout * Second,
                         SessionID = sessionID, OwnerID = ownerID\<rparr>
              in case execute req of
                   Inl err \<Rightarrow>
                     \<lparr>tool_result = CallToolError (''execution error: '' @ err),
                      executed = [req], tips_after = tips\<rparr>
                 | Inr result \<Rightarrow>
                     let response = formatExecutionResult lib result cfg;
                         sessionKey = (if ResultSessionID result = [] then ExecutionID result
                                       else ResultSessionID result)
                     in \<lparr>tool_result =
                           CallToolSuccess (if sessionKey \<in> tips then response
                                            else response @ resourceTipMessage),
                         executed = [req], tips_after = insert sessionKey tips\<rparr>)"

subsection \<open>Concrete inputs for the tool\<close>

text \<open>
  A library instance, a configuration and a sandbox used to run the handler on concrete
  calls: the sandbox returns a result with exit code 1.
\<close>

definition example_lib :: go_lib where
  "example_lib = \<lparr>fmt_float = (\<lambda>p x. ''0.25''), duration_round_string = (\<lambda>d. ''0s''),
                   arg_error_text = (\<lambda>e. ''argument error'')\<rparr>"

definition example_config :: "int \<Rightarrow> Config" where
  "example_config t =
     \<lparr>Grafana = \<lparr>URL = ''https://grafana.example'', ServiceToken = ''glsa_service_token'',
                 GrafanaTimeout = 120\<rparr>,
      Storage = None,
      Sandbox = \<lparr>Image = ''sandbox:latest'', Timeout = t\<rparr>\<rparr>"

definition example_storage_config :: Config where
  "example_storage_config =
     \<lparr>Grafana = \<lparr>URL = ''https://grafana.example'', ServiceToken = ''glsa_service_token'',
                 GrafanaTimeout = 120\<rparr>,
      Storage = Some \<lparr>Endpoint = ''https://s3.example'', AccessKey = ''AKIAEXAMPLE'',
                      SecretKey = ''s3-secret'', Bucket = ''outputs'', Region = ''us-east-1'',
                      PublicURLPrefix = []\<rparr>,
      Sandbox = \<lparr>Image = ''sandbox:latest'', Timeout = 60\<rparr>\<rparr>"

definition failing_run :: ExecutionResult where
  "failing_run =
     \<lparr>Stdout = ''partial'', Stderr = ''Traceback'', ExitCode = 1, ExecutionID = ''exec-1'',
      OutputFiles = [], DurationSeconds = 1 / 4, ResultSessionID = [], SessionFiles = [],
      SessionTTLRemaining = 0\<rparr>"

definition example_sandbox :: "ExecuteRequest \<Rightarrow> string + ExecutionResult" where
  "example_sandbox req = Inr failing_run"

definition example_call :: "string \<rightharpoonup> argval" where
  "example_call = [''code'' \<mapsto> AString ''raise SystemExit(1)'']"

section \<open>HTTP requests and responses (net/http)\<close>

text \<open>
  \<^verbatim>\<open>textproto.CanonicalMIMEHeaderKey\<close>: a key of token characters gets an upper-case
  letter at the start and after each hyphen and lower-case letters elsewhere; any other
  key is left as it is.
\<close>

definition lower_letters :: string where
  "lower_letters = ''abcdefghijklmnopqrstuvwxyz''"

definition upper_letters :: string where
  "upper_letters = ''ABCDEFGHIJKLMNOPQRSTUVWXYZ''"

definition to_upper :: "char \<Rightarrow> char" where
  "to_upper c = (case map_of (zip lower_letters upper_letters) c of Some u \<Rightarrow> u | None \<Rightarrow> c)"

definition to_lower :: "char \<Rightarrow> char" where
  "to_lower c = (case map_of (zip upper_letters lower_letters) c of Some l \<Rightarrow> l | None \<Rightarrow> c)"

definition valid_header_byte :: "char \<Rightarrow> bool" where
  "valid_header_byte c =
     (c \<in> set lower_letters \<or> c \<in> set upper_letters \<or> c \<in> set ''0123456789''
      \<or> c \<in> set ''!#$%&*+-.^_`|~'' \<or> c = CHR 0x27)"

fun canonical_loop :: "bool \<Rightarrow> string \<Rightarrow> string" where
  "canonical_loop upper [] = []"
| "canonical_loop upper (c # cs) =
     (let c' = (if upper then to_upper c else to_lower c)
      in c' # canonical_loop (c' = CHR ''-'') cs)"

definition CanonicalMIMEHeaderKey :: "string \<Rightarrow> string" where
  "CanonicalMIMEHeaderKey s =
     (if list_all valid_header_byte s then canonical_loop True s else s)"

text \<open>
  A header maps canonical keys to their values; \<^verbatim>\<open>Header.Get\<close> returns the first
  value of the key, or the empty string.
\<close>

type_synonym Header = "string \<rightharpoonup> string list"

definition Header_Get :: "Header \<Rightarrow> string \<Rightarrow> string" where
  "Header_Get h key =
     (case h (CanonicalMIMEHeaderKey key) of
        None \<Rightarrow> []
      | Some [] \<Rightarrow> []
      | Some (v # vs) \<Rightarrow> v)"


text \<open>
  The fields of a request that the handlers read or write: the peer address, the header,
  \<^verbatim>\<open>Host\<close>, and the host and the path of the URL.
\<close>

record Request =
  RemoteAddr :: string
  Header :: Header
  Host :: string
  URLHost :: string
  Path :: string

text \<open>
  A response: the status code and the body. \<^verbatim>\<open>http.Error\<close> writes the status and the
  message followed by a newline.
\<close>

record Response =
  StatusCode :: nat
  Body :: string

definition http_Error :: "string \<Rightarrow> nat \<Rightarrow> Response" where
  "http_Error msg code = \<lparr>StatusCode = code, Body = msg @ [NL]\<rparr>"

section \<open>The rate limiter (pkg/middleware/ratelimit.go)\<close>

subsection \<open>The client address\<close>

text \<open>
  The functions of Go's \<^verbatim>\<open>net\<close> and \<^verbatim>\<open>strings\<close> packages that the client-address
  resolution calls are taken as given: \<^verbatim>\<open>net.SplitHostPort\<close> returns the host (or
  fails), \<^verbatim>\<open>net.ParseIP\<close> and \<^verbatim>\<open>net.ParseCIDR\<close> return an address and a network (or fail),
  \<^verbatim>\<open>IPNet.Contains\<close> decides membership and \<^verbatim>\<open>strings.TrimSpace\<close> strips white space.
\<close>

record ('ip, 'net) net_lib =
  SplitHostPort :: "string \<Rightarrow> string option"
  ParseIP :: "string \<Rightarrow> 'ip option"
  ParseCIDR :: "string \<Rightarrow> 'net option"
  Contains :: "'net \<Rightarrow> 'ip \<Rightarrow> bool"
  TrimSpace :: "string \<Rightarrow> string"

text \<open>The loop of \<^verbatim>\<open>isTrustedProxy\<close> over the configured list.\<close>

fun trusted_loop :: "('ip, 'net) net_lib \<Rightarrow> string \<Rightarrow> 'ip \<Rightarrow> string list \<Rightarrow> bool" where
  "trusted_loop lib ip parsedIP [] = False"
| "trusted_loop lib ip parsedIP (trusted # rest) =
     (if CHR ''/'' \<in> set trusted then
        (case ParseCIDR lib trusted of
           None \<Rightarrow> trusted_loop lib ip parsedIP rest
         | Some ipNet \<Rightarrow>
             if Contains lib ipNet parsedIP then True
             else trusted_loop lib ip parsedIP rest)
      else if trusted = ip then True
      else trusted_loop lib ip parsedIP rest)"

definition isTrustedProxy :: "('ip, 'net) net_lib \<Rightarrow> string list \<Rightarrow> string \<Rightarrow> bool" where
  "isTrustedProxy lib TrustedProxies ip =
     (case ParseIP lib ip of
        None \<Rightarrow> False
      | Some parsedIP \<Rightarrow> trusted_loop lib ip parsedIP TrustedProxies)"

text \<open>The peer address: the host of \<^verbatim>\<open>RemoteAddr\<close>, or all of it when it does not split.\<close>

definition remoteIP :: "('ip, 'net) net_lib \<Rightarrow> Request \<Rightarrow> string" where
  "remoteIP lib r =
     (case SplitHostPort lib (RemoteAddr r) of None \<Rightarrow> RemoteAddr r | Some host \<Rightarrow> host)"

text \<open>The first element of \<^verbatim>\<open>strings.Split(xff, ",")\<close>, which is never empty.\<close>

definition first_entry :: "string \<Rightarrow> string" where
  "first_entry xff = takeWhile (\<lambda>c. c \<noteq> CHR '','') xff"

definition getClientIP :: "('ip, 'net) net_lib \<Rightarrow> string list \<Rightarrow> Request \<Rightarrow> string" where
  "getClientIP lib TrustedProxies r =
     (let isTrusted = isTrustedProxy lib TrustedProxies (remoteIP lib r);
          xff = Header_Get (Header r) ''X-Forwarded-For'';
          xri = Header_Get (Header r) ''X-Real-IP''
      in if isTrusted then
           (if xff \<noteq> [] \<and> TrimSpace lib (first_entry xff) \<noteq> []
            then TrimSpace lib (first_entry xff)
            else if xri \<noteq> [] then TrimSpace lib xri
            else remoteIP lib r)
         else remoteIP lib r)"

definition buildKey :: "string \<Rightarrow> string \<Rightarrow> string" where
  "buildKey clientIP toolName =
     (if toolName \<noteq> [] then clientIP @ '':'' @ toolName else clientIP)"

subsection \<open>An instance of the address functions, for concrete requests\<close>

text \<open>
  Dotted-quad IPv4 addresses as 32-bit numbers, networks as an address with a prefix
  length, \<^verbatim>\<open>host:port\<close> with a single colon, and ASCII white space. It is used to run
  the resolution on concrete requests only.
\<close>

fun split_on :: "char \<Rightarrow> string \<Rightarrow> string list" where
  "split_on sep [] = [[]]"
| "split_on sep (c # cs) =
     (if c = sep then [] # split_on sep cs
      else case split_on sep cs of
             [] \<Rightarrow> [[c]]
           | w # ws \<Rightarrow> (c # w) # ws)"

definition parse_octet :: "string \<Rightarrow> nat option" where
  "parse_octet s =
     (if s = [] \<or> length s > 3 \<or> (length s > 1 \<and> hd s = CHR ''0'') then None
      else case parse_digits 0 s of
             None \<Rightarrow> None
           | Some n \<Rightarrow> if n \<le> 255 then Some (nat n) else None)"

definition parse_ipv4 :: "string \<Rightarrow> nat option" where
  "parse_ipv4 s =
     (case map parse_octet (split_on CHR ''.'' s) of
        [Some a, Some b, Some c, Some d] \<Rightarrow> Some (((a * 256 + b) * 256 + c) * 256 + d)
      | _ \<Rightarrow> None)"

definition parse_ipv4_cidr :: "string \<Rightarrow> (nat \<times> nat) option" where
  "parse_ipv4_cidr s =
     (case split_on CHR ''/'' s of
        [a, l] \<Rightarrow>
          (case (parse_ipv4 a, if l = [] \<or> length l > 2 then None else parse_digits 0 l) of
             (Some ip, Some n) \<Rightarrow> if n \<le> 32 then Some (ip, nat n) else None
           | _ \<Rightarrow> None)
      | _ \<Rightarrow> None)"

definition ipv4_contains :: "nat \<times> nat \<Rightarrow> nat \<Rightarrow> bool" where
  "ipv4_contains n ip = (ip div 2 ^ (32 - snd n) = fst n div 2 ^ (32 - snd n))"

definition split_host_port :: "string \<Rightarrow> string option" where
  "split_host_port s =
     (case split_on CHR '':'' s of [host, port] \<Rightarrow> Some host | _ \<Rightarrow> None)"

definition ascii_space :: "char \<Rightarrow> bool" where
  "ascii_space c = (c \<in> set [CHR '' '', CHR 0x09, CHR 0x0A, CHR 0x0B, CHR 0x0C, CHR 0x0D])"

definition trim_ascii :: "string \<Rightarrow> string" where
  "trim_ascii s = rev (dropWhile ascii_space (rev (dropWhile ascii_space s)))"

definition ipv4_lib :: "(nat, nat \<times> nat) net_lib" where
  "ipv4_lib = \<lparr>SplitHostPort = split_host_port, ParseIP = parse_ipv4,
                ParseCIDR = parse_ipv4_cidr, Contains = ipv4_contains,
                TrimSpace = trim_ascii\<rparr>"

definition example_request :: "string \<Rightarrow> (string \<times> string list) list \<Rightarrow> Request" where
  "example_request addr hs =
     \<lparr>RemoteAddr = addr, Header = map_of hs, Host = ''proxy.example'',
      URLHost = [], Path = ''/''\<rparr>"

subsection \<open>The in-memory limiter\<close>

text \<open>
  The token bucket of \<^verbatim>\<open>golang.org/x/time/rate\<close> is taken as given: \<open>NewLimiter r b\<close>
  creates a bucket, \<open>Tokens l t\<close> is the number of tokens of \<open>l\<close> when the clock reads
  \<open>t\<close>, and \<open>LimiterAllow l t\<close> decides one request at \<open>t\<close> and returns the bucket
  afterwards. Times are nanoseconds.
\<close>

record 'l rate_lib =
  NewLimiter :: "rat \<Rightarrow> int \<Rightarrow> 'l"
  Tokens :: "'l \<Rightarrow> int \<Rightarrow> rat"
  LimiterAllow :: "'l \<Rightarrow> int \<Rightarrow> bool \<times> 'l"

record 'l inMemoryEntry =
  limiter :: 'l
  lastUsed :: int
  resetAt :: int
  burstSize :: int
  ratePerSec :: rat

record RateLimitInfo =
  Limit :: rat
  Remaining :: int
  ResetAt :: int

text \<open>
  The readings of \<^verbatim>\<open>time.Now()\<close> during one call of \<^verbatim>\<open>Allow\<close>, in the order in which
  they are taken: two in \<^verbatim>\<open>getOrCreateEntry\<close>, one inside \<^verbatim>\<open>Tokens()\<close> and one inside the
  bucket's \<^verbatim>\<open>Allow()\<close>.
\<close>

record clock =
  t_lastUsed :: int
  t_resetAt :: int
  t_tokens :: int
  t_allow :: int

text \<open>\<^verbatim>\<open>Time.Unix()\<close>: whole seconds.\<close>

definition Unix :: "int \<Rightarrow> int" where
  "Unix t = t div Second"

text \<open>
  \<^verbatim>\<open>getOrCreateEntry\<close> returns the entry and the map with that entry stored (the entries
  are pointers in the source). The second lookup is the one made under the write lock.
\<close>

definition getOrCreateEntry ::
  "'l rate_lib \<Rightarrow> (string \<rightharpoonup> 'l inMemoryEntry) \<Rightarrow> string \<Rightarrow> RateLimitRule \<Rightarrow> clock \<Rightarrow>
   'l inMemoryEntry \<times> (string \<rightharpoonup> 'l inMemoryEntry)" where
  "getOrCreateEntry lib limiters key rule clk =
     (case limiters key of
        Some entry \<Rightarrow>
          (let entry' = entry\<lparr>lastUsed := t_lastUsed clk,
                               resetAt := Unix (t_resetAt clk + GetBlockDuration rule)\<rparr>
           in (entry', limiters(key \<mapsto> entry')))
      | None \<Rightarrow>
          (case limiters key of
             Some entry \<Rightarrow>
               (let entry' = entry\<lparr>lastUsed := t_lastUsed clk\<rparr>
                in (entry', limiters(key \<mapsto> entry')))
           | None \<Rightarrow>
               (let ratePerSec = GetRequestsPerSecond rule;
                    burstSize = GetBurstSize rule;
                    entry = \<lparr>limiter = NewLimiter lib ratePerSec burstSize,
                             lastUsed = t_lastUsed clk,
                             resetAt = Unix (t_resetAt clk + GetBlockDuration rule),
                             burstSize = burstSize,
                             ratePerSec = ratePerSec\<rparr>
                in (entry, limiters(key \<mapsto> entry)))))"

text \<open>
  \<^verbatim>\<open>inMemoryLimiter.Allow\<close>: the decision, the info, and the map afterwards, in which the
  entry holds the bucket as its \<^verbatim>\<open>Allow()\<close> left it.
\<close>

definition Allow ::
  "'l rate_lib \<Rightarrow> (string \<rightharpoonup> 'l inMemoryEntry) \<Rightarrow> string \<Rightarrow> RateLimitRule \<Rightarrow> clock \<Rightarrow>
   bool \<times> RateLimitInfo \<times> (string \<rightharpoonup> 'l inMemoryEntry)" where
  "Allow lib limiters key rule clk =
     (case getOrCreateEntry lib limiters key rule clk of
        (entry, limiters1) \<Rightarrow>
          (let remaining0 = go_int (Tokens lib (limiter entry) (t_tokens clk));
               remaining = (if remaining0 < 0 then 0 else remaining0);
               info = \<lparr>Limit = ratePerSec entry, Remaining = remaining, ResetAt = resetAt entry\<rparr>
           in case LimiterAllow lib (limiter entry) (t_allow clk) of
                (ok, l') \<Rightarrow> (ok, info, limiters1(key \<mapsto> entry\<lparr>limiter := l'\<rparr>))))"

subsection \<open>A token bucket with exact arithmetic, for concrete runs\<close>

text \<open>
  A bucket in the manner of the rate package: tokens are refilled lazily at \<open>b_limit\<close>
  per second up to \<open>b_burst\<close>, and a request is admitted when a whole token is there.
  It is used to run \<open>Allow\<close> on concrete states only.
\<close>

record bucket =
  b_limit :: rat
  b_burst :: int
  b_tokens :: rat
  b_last :: int

definition bucket_advance :: "bucket \<Rightarrow> int \<Rightarrow> rat" where
  "bucket_advance l t =
     (let last = (if t < b_last l then t else b_last l);
          delta = b_limit l * of_int (t - last) / of_int Second;
          tokens = b_tokens l + delta
      in if tokens > of_int (b_burst l) then of_int (b_burst l) else tokens)"

definition bucket_allow :: "bucket \<Rightarrow> int \<Rightarrow> bool \<times> bucket" where
  "bucket_allow l t =
     (let tokens = bucket_advance l t - 1
      in if 1 \<le> b_burst l \<and> 0 \<le> tokens then (True, l\<lparr>b_tokens := tokens, b_last := t\<rparr>)
         else (False, l))"

definition bucket_lib :: "bucket rate_lib" where
  "bucket_lib =
     \<lparr>NewLimiter = (\<lambda>r b. \<lparr>b_limit = r, b_burst = b, b_tokens = of_int b, b_last = 0\<rparr>),
      Tokens = bucket_advance, LimiterAllow = bucket_allow\<rparr>"

definition one_token_left :: "string \<rightharpoonup> bucket inMemoryEntry" where
  "one_token_left =
     [''192.168.1.1'' \<mapsto>
        \<lparr>limiter = \<lparr>b_limit = 2, b_burst = 2, b_tokens = 1, b_last = 5 * Second\<rparr>,
         lastUsed = 5 * Second, resetAt = 65, burstSize = 2, ratePerSec = 2\<rparr>]"

definition example_rule :: RateLimitRule where
  "example_rule = \<lparr>RequestsPerSecond = 2, RequestsPerMinute = 0, BurstSize = 2,
                    BlockDuration = 60 * Second\<rparr>"

definition example_clock :: "int \<Rightarrow> clock" where
  "example_clock t = \<lparr>t_lastUsed = t, t_resetAt = t, t_tokens = t, t_allow = t\<rparr>"

section \<open>The CBT upstream handler (pkg/proxy/handlers)\<close>


record CBTConfig =
  cbt_Name :: string
  cbt_URL :: string
  cbt_Timeout :: int


text \<open>
  An instance holds its configuration and its reverse proxy; the proxy is its target
  here, and \<open>None\<close> is the nil proxy of an instance whose URL did not parse.
\<close>

record 'url cbtInstance =
  inst_cfg :: CBTConfig
  proxy :: "'url option"




definition TrimPrefix :: "string \<Rightarrow> string \<Rightarrow> string" where
  "TrimPrefix s p = (if prefix p s then drop (length p) s else s)"





subsection \<open>Concrete upstreams\<close>



section \<open>The JWT validator (pkg/proxy/jwt.go)\<close>

subsection \<open>Keys and the JWKS refresh\<close>

text \<open>A decoded JSON value, as \<^verbatim>\<open>encoding/json\<close> stores it in an \<^verbatim>\<open>any\<close>.\<close>

datatype json =
  JNull
  | JBool bool
  | JNumber rat
  | JString string
  | JArray "json list"
  | JObject "(string \<times> json) list"

record jwkKey =
  jwk_Kty :: string
  jwk_Use :: string
  jwk_Kid :: string
  jwk_Alg :: string
  jwk_N :: string
  jwk_E :: string

text \<open>\<^verbatim>\<open>rsa.PublicKey\<close>: the modulus, a big integer, and the exponent, a Go \<^verbatim>\<open>int\<close>.\<close>

record rsa_PublicKey =
  rsa_N :: nat
  rsa_E :: int

text \<open>
  Taken as given: \<^verbatim>\<open>base64.RawURLEncoding.DecodeString\<close> returns the bytes or fails, and
  the JSON decoder returns the keys of a JWKS document or fails.
\<close>

record jwks_lib =
  DecodeString :: "string \<Rightarrow> nat list option"
  DecodeJWKS :: "string \<Rightarrow> jwkKey list option"

text \<open>A Go \<^verbatim>\<open>int\<close> has 64 bits: the value of \<open>x\<close> after wrap-around.\<close>

definition wrap64 :: "int \<Rightarrow> int" where
  "wrap64 x = (x + 2 ^ 63) mod 2 ^ 64 - 2 ^ 63"

datatype key_error = DecodingModulus | DecodingExponent

definition parseRSAPublicKey :: "jwks_lib \<Rightarrow> jwkKey \<Rightarrow> key_error + rsa_PublicKey" where
  "parseRSAPublicKey lib key =
     (case DecodeString lib (jwk_N key) of
        None \<Rightarrow> Inl DecodingModulus
      | Some nBytes \<Rightarrow>
          (case DecodeString lib (jwk_E key) of
             None \<Rightarrow> Inl DecodingExponent
           | Some eBytes \<Rightarrow>
               Inr \<lparr>rsa_N = foldl (\<lambda>n b. n * 256 + b) 0 nBytes,
                    rsa_E = foldl (\<lambda>e b. wrap64 (e * 256 + int b)) 0 eBytes\<rparr>))"

text \<open>The loop of \<^verbatim>\<open>refreshJWKS\<close> over the keys of the response.\<close>

fun refresh_loop ::
  "jwks_lib \<Rightarrow> (string \<rightharpoonup> rsa_PublicKey) \<Rightarrow> jwkKey list \<Rightarrow> (string \<rightharpoonup> rsa_PublicKey)" where
  "refresh_loop lib newKeys [] = newKeys"
| "refresh_loop lib newKeys (key # rest) =
     (if jwk_Kty key \<noteq> ''RSA'' \<or> jwk_Use key \<noteq> ''sig'' then refresh_loop lib newKeys rest
      else case parseRSAPublicKey lib key of
             Inl err \<Rightarrow> refresh_loop lib newKeys rest
           | Inr pubKey \<Rightarrow> refresh_loop lib (newKeys(jwk_Kid key \<mapsto> pubKey)) rest)"

text \<open>
  What the HTTP client did with the request for the JWKS: the request could not be
  created, the transport failed, or a response with a status and a body came back.
\<close>

datatype fetched = RequestFailed string | TransportFailed string | Fetched nat string

datatype refresh_error =
  CreatingRequest string
  | FetchingJWKS string
  | StatusNotOK nat
  | DecodingJWKS

text \<open>
  \<^verbatim>\<open>refreshJWKS\<close>: the error (\<open>None\<close> is nil) and the key map of the validator
  afterwards.
\<close>

definition refreshJWKS ::
  "jwks_lib \<Rightarrow> (string \<rightharpoonup> rsa_PublicKey) \<Rightarrow> fetched \<Rightarrow>
   refresh_error option \<times> (string \<rightharpoonup> rsa_PublicKey)" where
  "refreshJWKS lib keys f =
     (case f of
        RequestFailed err \<Rightarrow> (Some (CreatingRequest err), keys)
      | TransportFailed err \<Rightarrow> (Some (FetchingJWKS err), keys)
      | Fetched status body \<Rightarrow>
          if status \<noteq> 200 then (Some (StatusNotOK status), keys)
          else case DecodeJWKS lib body of
                 None \<Rightarrow> (Some DecodingJWKS, keys)
               | Some jwks \<Rightarrow> (None, refresh_loop lib Map.empty jwks))"

text \<open>
  \<^verbatim>\<open>refreshLoop\<close>: at each tick the keys are refreshed and an error is only logged;
  the list holds what the client fetched at the successive ticks.
\<close>

fun refreshLoop ::
  "jwks_lib \<Rightarrow> (string \<rightharpoonup> rsa_PublicKey) \<Rightarrow> fetched list \<Rightarrow> (string \<rightharpoonup> rsa_PublicKey)" where
  "refreshLoop lib keys [] = keys"
| "refreshLoop lib keys (f # fs) = refreshLoop lib (snd (refreshJWKS lib keys f)) fs"

subsection \<open>A base64url decoder and a JWKS document, for concrete runs\<close>

text \<open>
  The unpadded URL alphabet: four characters give three bytes, a rest of two or three
  characters gives one or two bytes, and a rest of one character or a character outside
  the alphabet is an error. It is used to run the refresh on concrete responses only.
\<close>

definition b64url_alphabet :: string where
  "b64url_alphabet = ''ABCDEFGHIJKLMNOPQRSTUVWXYZabcdefghijklmnopqrstuvwxyz0123456789-_''"

fun index_of :: "'a \<Rightarrow> 'a list \<Rightarrow> nat option" where
  "index_of x [] = None"
| "index_of x (y # ys) = (if x = y then Some 0 else map_option Suc (index_of x ys))"

fun sextets :: "string \<Rightarrow> nat list option" where
  "sextets [] = Some []"
| "sextets (c # cs) =
     (case index_of c b64url_alphabet of
        None \<Rightarrow> None
      | Some v \<Rightarrow> map_option ((#) v) (sextets cs))"

fun b64_bytes :: "nat list \<Rightarrow> nat list option" where
  "b64_bytes (a # b # c # d # rest) =
     map_option (\<lambda>bs. (a * 4 + b div 16) # ((b mod 16) * 16 + c div 4) # ((c mod 4) * 64 + d) # bs)
       (b64_bytes rest)"
| "b64_bytes [a, b, c] = Some [a * 4 + b div 16, (b mod 16) * 16 + c div 4]"
| "b64_bytes [a, b] = Some [a * 4 + b div 16]"
| "b64_bytes [a] = None"
| "b64_bytes [] = Some []"

definition b64url_decode :: "string \<Rightarrow> nat list option" where
  "b64url_decode s = (case sextets s of None \<Rightarrow> None | Some vs \<Rightarrow> b64_bytes vs)"

definition example_jwks :: "jwkKey list" where
  "example_jwks =
     [\<lparr>jwk_Kty = ''RSA'', jwk_Use = ''sig'', jwk_Kid = ''key-1'', jwk_Alg = ''RS256'',
       jwk_N = ''DKE'', jwk_E = ''AQAB''\<rparr>,
      \<lparr>jwk_Kty = ''RSA'', jwk_Use = ''enc'', jwk_Kid = ''key-2'', jwk_Alg = ''RSA-OAEP'',
       jwk_N = ''DKE'', jwk_E = ''AQAB''\<rparr>,
      \<lparr>jwk_Kty = ''RSA'', jwk_Use = ''sig'', jwk_Kid = ''key-3'', jwk_Alg = ''RS256'',
       jwk_N = ''not base64!'', jwk_E = ''AQAB''\<rparr>]"

definition broken_jwks :: "jwkKey list" where
  "broken_jwks =
     [\<lparr>jwk_Kty = ''RSA'', jwk_Use = ''sig'', jwk_Kid = ''key-3'', jwk_Alg = ''RS256'',
       jwk_N = ''not base64!'', jwk_E = ''AQAB''\<rparr>]"

text \<open>The documents are named by their bodies: \<^verbatim>\<open>jwks\<close> and \<^verbatim>\<open>broken\<close>.\<close>

definition example_jwks_lib :: jwks_lib where
  "example_jwks_lib =
     \<lparr>DecodeString = b64url_decode,
      DecodeJWKS = (\<lambda>body. if body = ''jwks'' then Some example_jwks
                            else if body = ''broken'' then Some broken_jwks
                            else None)\<rparr>"

definition example_key :: rsa_PublicKey where
  "example_key = \<lparr>rsa_N = 3233, rsa_E = 65537\<rparr>"

subsection \<open>Validating a token\<close>

record JWTValidatorConfig =
  cfg_JWKSURL :: string
  cfg_Issuer :: string
  cfg_Audience :: string
  cfg_AllowedOrgs :: "string list"
  cfg_RefreshInterval :: int

text \<open>The times of the claims are nanoseconds; 0 is the zero time.\<close>

record JWTClaims =
  Subject :: string
  Email :: string
  Groups :: "string list"
  Issuer :: string
  Audience :: "string list"
  ExpiresAt :: int
  IssuedAt :: int
  GitHubLogin :: string
  GitHubID :: int

text \<open>
  A token as \<^verbatim>\<open>jwt.Parse\<close> of golang-jwt holds it: the decoded header, the decoded
  claims (\<^verbatim>\<open>jwt.MapClaims\<close>) and the flag \<^verbatim>\<open>Valid\<close>.
\<close>

record jwt_Token =
  TokenHeader :: "string \<rightharpoonup> json"
  Claims :: "string \<rightharpoonup> json"
  Valid :: bool

text \<open>
  The steps of the library are taken as given: \<open>ParseUnverified s\<close> splits and decodes
  the token string (or fails), \<open>VerifyRS256 key s\<close> checks the RS256 signature of the
  token string under the key, \<open>ValidateClaims c\<close> is the library's validation of the
  registered claims at the time of the call (\<^verbatim>\<open>exp\<close> and \<^verbatim>\<open>nbf\<close>), and
  \<open>NumericDate c k\<close> reads the claim \<open>k\<close> as a time (\<^verbatim>\<open>GetExpirationTime\<close>,
  \<^verbatim>\<open>GetIssuedAt\<close>), \<open>None\<close> when it is absent or not a number.
\<close>

record jwt_lib =
  ParseUnverified :: "string \<Rightarrow> jwt_Token option"
  VerifyRS256 :: "rsa_PublicKey \<Rightarrow> string \<Rightarrow> bool"
  ValidateClaims :: "(string \<rightharpoonup> json) \<Rightarrow> bool"
  NumericDate :: "(string \<rightharpoonup> json) \<Rightarrow> string \<Rightarrow> int option"

datatype keyFunc_error = MissingKid | KeyNotFound string

datatype jwt_error =
  ErrTokenMalformed
  | ErrSigningMethod
  | ErrTokenUnverifiable keyFunc_error
  | ErrTokenSignatureInvalid
  | ErrTokenInvalidClaims

datatype validate_error =
  ParsingToken jwt_error
  | InvalidToken
  | InvalidIssuer string string
  | InvalidAudience "string list" string
  | NotInAllowedOrgs

definition keyFunc :: "(string \<rightharpoonup> rsa_PublicKey) \<Rightarrow> jwt_Token \<Rightarrow> keyFunc_error + rsa_PublicKey" where
  "keyFunc keys token =
     (case TokenHeader token ''kid'' of
        Some (JString kid) \<Rightarrow>
          (case keys kid of None \<Rightarrow> Inl (KeyNotFound kid) | Some key \<Rightarrow> Inr key)
      | _ \<Rightarrow> Inl MissingKid)"

text \<open>
  \<^verbatim>\<open>jwt.Parse(tokenString, v.keyFunc, jwt.WithValidMethods([]string{"RS256"}))\<close>: the
  token is decoded, its algorithm must be RS256, the key function supplies the key, the
  signature is verified, the claims are validated, and only then the token is valid.
\<close>

definition jwt_Parse ::
  "jwt_lib \<Rightarrow> (string \<rightharpoonup> rsa_PublicKey) \<Rightarrow> string \<Rightarrow> jwt_error + jwt_Token" where
  "jwt_Parse lib keys tokenString =
     (case ParseUnverified lib tokenString of
        None \<Rightarrow> Inl ErrTokenMalformed
      | Some token \<Rightarrow>
          if TokenHeader token ''alg'' \<noteq> Some (JString ''RS256'') then Inl ErrSigningMethod
          else case keyFunc keys token of
                 Inl err \<Rightarrow> Inl (ErrTokenUnverifiable err)
               | Inr key \<Rightarrow>
                   if \<not> VerifyRS256 lib key tokenString then Inl ErrTokenSignatureInvalid
                   else if \<not> ValidateClaims lib (Claims token) then Inl ErrTokenInvalidClaims
                   else Inr (token\<lparr>Valid := True\<rparr>))"

definition getString :: "(string \<rightharpoonup> json) \<Rightarrow> string \<Rightarrow> string" where
  "getString claims key = (case claims key of Some (JString v) \<Rightarrow> v | _ \<Rightarrow> [])"

text \<open>The strings among the elements of a JSON array, in order.\<close>

fun strings_of :: "json list \<Rightarrow> string list" where
  "strings_of [] = []"
| "strings_of (JString s # rest) = s # strings_of rest"
| "strings_of (other # rest) = strings_of rest"

definition extractAudience :: "(string \<rightharpoonup> json) \<Rightarrow> string list" where
  "extractAudience claims =
     (case claims ''aud'' of
        Some (JString aud) \<Rightarrow> [aud]
      | Some (JArray aud) \<Rightarrow> strings_of aud
      | _ \<Rightarrow> [])"

definition containsAudience :: "string list \<Rightarrow> string \<Rightarrow> bool" where
  "containsAudience audiences expected = (expected \<in> set audiences)"

fun hasAllowedOrg :: "string list \<Rightarrow> string list \<Rightarrow> bool" where
  "hasAllowedOrg groups [] = False"
| "hasAllowedOrg groups (org # allowedOrgs) =
     (if org \<in> set groups then True else hasAllowedOrg groups allowedOrgs)"

text \<open>The groups that \<^verbatim>\<open>Validate\<close> collects from the claim \<^verbatim>\<open>groups\<close>.\<close>

definition claim_groups :: "(string \<rightharpoonup> json) \<Rightarrow> string list" where
  "claim_groups claims =
     (case claims ''groups'' of Some (JArray groups) \<Rightarrow> strings_of groups | _ \<Rightarrow> [])"

text \<open>
  \<^verbatim>\<open>jwtValidator.Validate\<close>. The claims of a token parsed by \<^verbatim>\<open>jwt.Parse\<close> are always
  \<^verbatim>\<open>jwt.MapClaims\<close>, so the type assertion of the source cannot fail.
\<close>

definition Validate_JWT ::
  "jwt_lib \<Rightarrow> JWTValidatorConfig \<Rightarrow> (string \<rightharpoonup> rsa_PublicKey) \<Rightarrow> string \<Rightarrow>
   validate_error + JWTClaims" where
  "Validate_JWT lib c keys tokenString =
     (case jwt_Parse lib keys tokenString of
        Inl err \<Rightarrow> Inl (ParsingToken err)
      | Inr token \<Rightarrow>
          if \<not> Valid token then Inl InvalidToken
          else
            let claims = Claims token;
                issuer = getString claims ''iss''
            in if cfg_Issuer c \<noteq> [] \<and> issuer \<noteq> cfg_Issuer c
               then Inl (InvalidIssuer issuer (cfg_Issuer c))
               else if cfg_Audience c \<noteq> []
                       \<and> \<not> containsAudience (extractAudience claims) (cfg_Audience c)
               then Inl (InvalidAudience (extractAudience claims) (cfg_Audience c))
               else
                 let jwtClaims =
                       \<lparr>Subject = getString claims ''sub'',
                        Email = getString claims ''email'',
                        Groups = claim_groups claims,
                        Issuer = issuer,
                        Audience = extractAudience claims,
                        ExpiresAt = (case NumericDate lib claims ''exp'' of
                                       Some t \<Rightarrow> t | None \<Rightarrow> 0),
                        IssuedAt = (case NumericDate lib claims ''iat'' of
                                      Some t \<Rightarrow> t | None \<Rightarrow> 0),
                        GitHubLogin = getString claims ''github_login'',
                        GitHubID = (case claims ''github_id'' of
                                      Some (JNumber githubID) \<Rightarrow> go_int githubID
                                    | _ \<Rightarrow> 0)\<rparr>
                 in if cfg_AllowedOrgs c \<noteq> []
                       \<and> \<not> hasAllowedOrg (Groups jwtClaims) (cfg_AllowedOrgs c)
                    then Inl NotInAllowedOrgs
                    else Inr jwtClaims)"

subsection \<open>Concrete tokens\<close>

text \<open>
  An instance of the library for concrete runs, at the time 1000 (seconds): three token
  strings with their decoded contents, all signed by the key \<open>example_key\<close>; the
  validation of the claims rejects a token whose \<^verbatim>\<open>exp\<close> is not after the time of the
  call.
\<close>

definition example_token :: "string \<Rightarrow> rat \<Rightarrow> jwt_Token" where
  "example_token iss expiry =
     \<lparr>TokenHeader = [''alg'' \<mapsto> JString ''RS256'', ''kid'' \<mapsto> JString ''key-1''],
      Claims = [''sub'' \<mapsto> JString ''alice'', ''iss'' \<mapsto> JString iss,
                ''groups'' \<mapsto> JArray [JString ''ethpandaops'', JString ''other''],
                ''exp'' \<mapsto> JNumber expiry],
      Valid = False\<rparr>"

definition example_jwt_lib :: jwt_lib where
  "example_jwt_lib =
     \<lparr>ParseUnverified =
        (\<lambda>s. if s = ''good.token'' then Some (example_token ''https://idp'' 2000)
              else if s = ''evil.token'' then Some (example_token ''https://evil'' 2000)
              else if s = ''expired.token'' then Some (example_token ''https://idp'' 500)
              else None),
      VerifyRS256 = (\<lambda>key s. key = example_key),
      ValidateClaims = (\<lambda>c. case c ''exp'' of Some (JNumber e) \<Rightarrow> 1000 < e | _ \<Rightarrow> True),
      NumericDate = (\<lambda>c k. case c k of Some (JNumber x) \<Rightarrow> Some (go_int x * Second)
                                       | _ \<Rightarrow> None)\<rparr>"

definition example_jwt_config :: JWTValidatorConfig where
  "example_jwt_config =
     \<lparr>cfg_JWKSURL = ''https://idp/keys'', cfg_Issuer = ''https://idp'', cfg_Audience = [],
      cfg_AllowedOrgs = [''ethpandaops''], cfg_RefreshInterval = 3600 * Second\<rparr>"

section \<open>The authenticators of the proxy (pkg/proxy/auth.go)\<close>

text \<open>
  The values that a middleware adds to the context of an authenticated request: the
  execution id, the user id and the claims.
\<close>

record auth_context =
  ctx_executionID :: "string option"
  ctx_userID :: "string option"
  ctx_jwtClaims :: "JWTClaims option"

text \<open>
  \<^verbatim>\<open>tokenAuthenticator.Middleware\<close>. \<open>validate\<close> is \<^verbatim>\<open>TokenStore.Validate\<close> of the token
  store: the execution id bound to a token, or the empty string; \<open>next\<close> is the wrapped
  handler, which receives the context and the request.
\<close>

definition tokenAuthenticator_Middleware ::
  "(string \<Rightarrow> string) \<Rightarrow> (auth_context \<Rightarrow> Request \<Rightarrow> Response) \<Rightarrow> Request \<Rightarrow> Response" where
  "tokenAuthenticator_Middleware validate next r =
     (let auth = Header_Get (Header r) ''Authorization''
      in if auth = [] then http_Error ''missing Authorization header'' 401
         else if \<not> prefix ''Bearer '' auth then
           http_Error ''invalid Authorization header format'' 401
         else
           let token = TrimPrefix auth ''Bearer '';
               executionID = validate token
           in if executionID = [] then http_Error ''invalid or expired token'' 401
              else next \<lparr>ctx_executionID = Some executionID, ctx_userID = Some executionID,
                          ctx_jwtClaims = None\<rparr> r)"

text \<open>
  \<^verbatim>\<open>jwtAuthenticator.Middleware\<close>. \<open>validate\<close> is the \<^verbatim>\<open>Validate\<close> of the validator
  behind the interface \<^verbatim>\<open>JWTValidator\<close>.
\<close>

definition jwtAuthenticator_Middleware ::
  "(string \<Rightarrow> 'e + JWTClaims) \<Rightarrow> (auth_context \<Rightarrow> Request \<Rightarrow> Response) \<Rightarrow> Request \<Rightarrow> Response" where
  "jwtAuthenticator_Middleware validate next r =
     (let auth = Header_Get (Header r) ''Authorization''
      in if auth = [] then http_Error ''missing Authorization header'' 401
         else if \<not> prefix ''Bearer '' auth then
           http_Error ''invalid Authorization header format'' 401
         else
           let tokenString = TrimPrefix auth ''Bearer ''
           in case validate tokenString of
                Inl err \<Rightarrow> http_Error ''invalid or expired token'' 401
              | Inr claims \<Rightarrow>
                  next \<lparr>ctx_executionID = None, ctx_userID = Some (Subject claims),
                        ctx_jwtClaims = Some claims\<rparr> r)"

subsection \<open>A concrete proxy\<close>

text \<open>
  A token store with one token, the validator of the concrete tokens above, and a
  handler that answers 200.
\<close>

definition example_token_store :: "string \<Rightarrow> string" where
  "example_token_store token = (if token = ''tok-1'' then ''exec-1'' else [])"

definition example_validator :: "string \<Rightarrow> validate_error + JWTClaims" where
  "example_validator =
     Validate_JWT example_jwt_lib example_jwt_config [''key-1'' \<mapsto> example_key]"

definition example_next :: "auth_context \<Rightarrow> Request \<Rightarrow> Response" where
  "example_next ctx r = \<lparr>StatusCode = 200, Body = ''ok''\<rparr>"

section \<open>The S3 upstream handler (pkg/proxy/handlers)\<close>





section \<open>Properties of the rate-limit rule normalisation\<close>

lemma GetRequestsPerSecond_positive: "0 < GetRequestsPerSecond r"
  by (simp add: GetRequestsPerSecond_def)

lemma GetBurstSize_at_least_one: "1 \<le> GetBurstSize r"
  by (simp add: GetBurstSize_def Let_def)

lemma GetBlockDuration_positive: "0 < GetBlockDuration r"
  by (simp add: GetBlockDuration_def Second_def)

lemma GetBurstSize_default_is_floor:
  "BurstSize r \<le> 0 \<Longrightarrow> GetBurstSize r = max 1 \<lfloor>GetRequestsPerSecond r\<rfloor>"
  using GetRequestsPerSecond_positive [of r]
  by (simp add: GetBurstSize_def Let_def go_int_def max_def)

text \<open>
  C5. The rule normalisation: the effective rate, the effective burst (the configured
  one, else the ceiling of the rate, never below 1) and the effective block duration.
  The rate and the block duration are as stated; the default burst is not: for the rule
  with 2.5 requests per second and nothing else set, \<^verbatim>\<open>GetBurstSize\<close> returns 2, where
  the ceiling of the effective rate is 3.
\<close>

theorem GetBurstSize_truncates_fractional_rate:
  "GetRequestsPerSecond \<lparr>RequestsPerSecond = 5 / 2, RequestsPerMinute = 0,
       BurstSize = 0, BlockDuration = 0\<rparr> = 5 / 2
   \<and> GetBurstSize \<lparr>RequestsPerSecond = 5 / 2, RequestsPerMinute = 0,
       BurstSize = 0, BlockDuration = 0\<rparr> = 2
   \<and> \<lceil>GetRequestsPerSecond \<lparr>RequestsPerSecond = 5 / 2, RequestsPerMinute = 0,
       BurstSize = 0, BlockDuration = 0\<rparr>\<rceil> = 3"
  by (simp add: GetBurstSize_def GetRequestsPerSecond_def go_int_def Let_def
      floor_unique ceiling_unique)


section \<open>Properties of the execute_python tool\<close>

subsection \<open>The environment passed to the sandbox\<close>

text \<open>
  C1, as the code has it. \<^verbatim>\<open>buildSandboxEnv\<close> belongs to the design in which the
  sandbox queries Grafana and S3 itself: the environment holds the Grafana service token
  under \<^verbatim>\<open>XATU_GRAFANA_TOKEN\<close> and, when a storage is configured, the storage keys
  under \<^verbatim>\<open>XATU_S3_ACCESS_KEY\<close> and \<^verbatim>\<open>XATU_S3_SECRET_KEY\<close> (without a storage these
  two are absent). Every other entry is one of the fields that are not credentials: the
  Grafana URL, the HTTP timeout, the S3 endpoint, bucket, region and public URL prefix.
  There is no entry for a per-execution proxy token.
\<close>

theorem buildSandboxEnv_credentials_under_three_keys:
  "buildSandboxEnv cfg ''XATU_GRAFANA_TOKEN'' = Some (ServiceToken (Grafana cfg))
   \<and> (\<forall>st. Storage cfg = Some st \<longrightarrow>
         buildSandboxEnv cfg ''XATU_S3_ACCESS_KEY'' = Some (AccessKey st)
         \<and> buildSandboxEnv cfg ''XATU_S3_SECRET_KEY'' = Some (SecretKey st))
   \<and> (Storage cfg = None \<longrightarrow>
         buildSandboxEnv cfg ''XATU_S3_ACCESS_KEY'' = None
         \<and> buildSandboxEnv cfg ''XATU_S3_SECRET_KEY'' = None)
   \<and> buildSandboxEnv cfg ''ETHPANDAOPS_PROXY_TOKEN'' = None
   \<and> (\<forall>k v. buildSandboxEnv cfg k = Some v
         \<and> k \<notin> {''XATU_GRAFANA_TOKEN'', ''XATU_S3_ACCESS_KEY'', ''XATU_S3_SECRET_KEY''} \<longrightarrow>
         (k = ''XATU_GRAFANA_URL'' \<and> v = URL (Grafana cfg))
         \<or> (k = ''XATU_HTTP_TIMEOUT'' \<and> v = Itoa (GrafanaTimeout (Grafana cfg)))
         \<or> (\<exists>st. Storage cfg = Some st
               \<and> ((k = ''XATU_S3_ENDPOINT'' \<and> v = Endpoint st)
                   \<or> (k = ''XATU_S3_BUCKET'' \<and> v = Bucket st)
                   \<or> (k = ''XATU_S3_REGION'' \<and> v = Region st)
                   \<or> (k = ''XATU_S3_PUBLIC_URL_PREFIX'' \<and> v = PublicURLPrefix st
                       \<and> PublicURLPrefix st \<noteq> []))))"
proof -
  have others: "(k = ''XATU_GRAFANA_URL'' \<and> v = URL (Grafana cfg))
         \<or> (k = ''XATU_HTTP_TIMEOUT'' \<and> v = Itoa (GrafanaTimeout (Grafana cfg)))
         \<or> (\<exists>st. Storage cfg = Some st
               \<and> ((k = ''XATU_S3_ENDPOINT'' \<and> v = Endpoint st)
                   \<or> (k = ''XATU_S3_BUCKET'' \<and> v = Bucket st)
                   \<or> (k = ''XATU_S3_REGION'' \<and> v = Region st)
                   \<or> (k = ''XATU_S3_PUBLIC_URL_PREFIX'' \<and> v = PublicURLPrefix st
                       \<and> PublicURLPrefix st \<noteq> [])))"
    if "buildSandboxEnv cfg k = Some v"
      and "k \<notin> {''XATU_GRAFANA_TOKEN'', ''XATU_S3_ACCESS_KEY'', ''XATU_S3_SECRET_KEY''}"
    for k v
  proof (cases "Storage cfg")
    case None
    with that show ?thesis
      by (simp add: buildSandboxEnv_def Let_def split: if_splits)
  next
    case (Some st)
    with that show ?thesis
      by (simp add: buildSandboxEnv_def Let_def split: if_splits)
  qed
  have token: "buildSandboxEnv cfg ''XATU_GRAFANA_TOKEN'' = Some (ServiceToken (Grafana cfg))"
    and proxy: "buildSandboxEnv cfg ''ETHPANDAOPS_PROXY_TOKEN'' = None"
    by (simp_all add: buildSandboxEnv_def Let_def split: option.split)
  have keys: "buildSandboxEnv cfg ''XATU_S3_ACCESS_KEY'' = Some (AccessKey st)
         \<and> buildSandboxEnv cfg ''XATU_S3_SECRET_KEY'' = Some (SecretKey st)"
    if "Storage cfg = Some st" for st
    using that by (simp add: buildSandboxEnv_def Let_def)
  have nokeys: "buildSandboxEnv cfg ''XATU_S3_ACCESS_KEY'' = None
         \<and> buildSandboxEnv cfg ''XATU_S3_SECRET_KEY'' = None"
    if "Storage cfg = None"
    using that by (simp add: buildSandboxEnv_def Let_def)
  have k1: "\<forall>st. Storage cfg = Some st \<longrightarrow>
         buildSandboxEnv cfg ''XATU_S3_ACCESS_KEY'' = Some (AccessKey st)
         \<and> buildSandboxEnv cfg ''XATU_S3_SECRET_KEY'' = Some (SecretKey st)"
    by (intro allI impI) (rule keys)
  have k0: "Storage cfg = None \<longrightarrow>
         buildSandboxEnv cfg ''XATU_S3_ACCESS_KEY'' = None
         \<and> buildSandboxEnv cfg ''XATU_S3_SECRET_KEY'' = None"
    by (intro impI) (rule nokeys)
  show ?thesis
    by (intro conjI token k1 k0 proxy allI impI, elim conjE) (rule others)
qed

theorem buildSandboxEnv_credentials_under_three_keys_witness:
  "Storage example_storage_config
       = Some \<lparr>Endpoint = ''https://s3.example'', AccessKey = ''AKIAEXAMPLE'',
               SecretKey = ''s3-secret'', Bucket = ''outputs'', Region = ''us-east-1'',
               PublicURLPrefix = []\<rparr>
   \<and> buildSandboxEnv example_storage_config ''XATU_S3_ACCESS_KEY'' = Some ''AKIAEXAMPLE''
   \<and> buildSandboxEnv example_storage_config ''XATU_S3_SECRET_KEY'' = Some ''s3-secret''
   \<and> buildSandboxEnv example_storage_config ''XATU_S3_BUCKET'' = Some ''outputs''
   \<and> ''XATU_S3_BUCKET''
       \<notin> {''XATU_GRAFANA_TOKEN'', ''XATU_S3_ACCESS_KEY'', ''XATU_S3_SECRET_KEY''}
   \<and> Storage (example_config 60) = None
   \<and> buildSandboxEnv (example_config 60) ''XATU_S3_SECRET_KEY'' = None"
proof -
  let ?st = "\<lparr>Endpoint = ''https://s3.example'', AccessKey = ''AKIAEXAMPLE'',
               SecretKey = ''s3-secret'', Bucket = ''outputs'', Region = ''us-east-1'',
               PublicURLPrefix = []\<rparr>"
  have st: "Storage example_storage_config = Some ?st"
    by (simp add: example_storage_config_def)
  have none: "Storage (example_config 60) = None"
    by (simp add: example_config_def)
  have bucket: "buildSandboxEnv example_storage_config ''XATU_S3_BUCKET'' = Some ''outputs''"
    and other: "''XATU_S3_BUCKET''
       \<notin> {''XATU_GRAFANA_TOKEN'', ''XATU_S3_ACCESS_KEY'', ''XATU_S3_SECRET_KEY''}"
    by (simp_all add: buildSandboxEnv_def example_storage_config_def Let_def)
  from buildSandboxEnv_credentials_under_three_keys [of example_storage_config] st
  have keys: "buildSandboxEnv example_storage_config ''XATU_S3_ACCESS_KEY'' = Some ''AKIAEXAMPLE''"
    "buildSandboxEnv example_storage_config ''XATU_S3_SECRET_KEY'' = Some ''s3-secret''"
    by simp_all
  from buildSandboxEnv_credentials_under_three_keys [of "example_config 60"] none
  have nokey: "buildSandboxEnv (example_config 60) ''XATU_S3_SECRET_KEY'' = None"
    by simp
  from st keys bucket other none nokey show ?thesis by (intro conjI)
qed

text \<open>
  C1, as stated, fails: at a configuration with a Grafana service token and S3 keys,
  three values of the environment are exactly these credentials, and the proxy token is
  not in it.
\<close>

theorem buildSandboxEnv_passes_three_credentials:
  "ServiceToken (Grafana example_storage_config) = ''glsa_service_token''
   \<and> Storage example_storage_config
       = Some \<lparr>Endpoint = ''https://s3.example'', AccessKey = ''AKIAEXAMPLE'',
               SecretKey = ''s3-secret'', Bucket = ''outputs'', Region = ''us-east-1'',
               PublicURLPrefix = []\<rparr>
   \<and> buildSandboxEnv example_storage_config ''XATU_GRAFANA_TOKEN'' = Some ''glsa_service_token''
   \<and> buildSandboxEnv example_storage_config ''XATU_S3_ACCESS_KEY'' = Some ''AKIAEXAMPLE''
   \<and> buildSandboxEnv example_storage_config ''XATU_S3_SECRET_KEY'' = Some ''s3-secret''
   \<and> buildSandboxEnv example_storage_config ''ETHPANDAOPS_PROXY_TOKEN'' = None"
  by (simp add: buildSandboxEnv_def example_storage_config_def Let_def)

subsection \<open>The formatted result contains the output and the exit code\<close>

lemma sublist_Join: "x \<in> set parts \<Longrightarrow> sublist x (Join parts sep)"
proof (induction parts sep rule: Join.induct)
  case (1 sep)
  then show ?case by simp
next
  case (2 y sep)
  then show ?case by simp
next
  case (3 a b ys sep)
  show ?case
  proof (cases "x = a")
    case True
    then show ?thesis by simp
  next
    case False
    with 3 have "sublist x (Join (b # ys) sep)" by simp
    then obtain ps ss where "Join (b # ys) sep = ps @ x @ ss"
      by (auto simp: sublist_def)
    then have "Join (a # b # ys) sep = (a @ sep @ ps) @ x @ ss" by simp
    then show ?thesis unfolding sublist_def by blast
  qed
qed

lemma sublist_chain: "sublist y z \<Longrightarrow> sublist x y \<Longrightarrow> sublist x z"
  using sublist_order.order_trans by blast

lemma format_contains_stdout: "sublist (Stdout r) (formatExecutionResult lib r cfg)"
proof (cases "Stdout r = []")
  case True
  then show ?thesis by simp
next
  case False
  have "sublist (''[stdout]'' @ [NL] @ Stdout r) (formatExecutionResult lib r cfg)"
    unfolding formatExecutionResult_def Let_def
    by (rule sublist_Join) (simp add: False)
  moreover have "sublist (Stdout r) (''[stdout]'' @ [NL] @ Stdout r)"
    by (metis append_assoc sublist_append_leftI)
  ultimately show ?thesis by (rule sublist_chain)
qed

lemma format_contains_stderr: "sublist (Stderr r) (formatExecutionResult lib r cfg)"
proof (cases "Stderr r = []")
  case True
  then show ?thesis by simp
next
  case False
  have "sublist (''[stderr]'' @ [NL] @ Stderr r) (formatExecutionResult lib r cfg)"
    unfolding formatExecutionResult_def Let_def
    by (rule sublist_Join) (simp add: False)
  moreover have "sublist (Stderr r) (''[stderr]'' @ [NL] @ Stderr r)"
    by (metis append_assoc sublist_append_leftI)
  ultimately show ?thesis by (rule sublist_chain)
qed

lemma format_contains_exit:
  "sublist (''[exit='' @ Itoa (ExitCode r) @ '' duration='') (formatExecutionResult lib r cfg)"
proof -
  let ?line = "''[exit='' @ Itoa (ExitCode r) @ '' duration=''
               @ fmt_float lib 2 (DurationSeconds r) @ ''s id='' @ ExecutionID r @ '']''"
  have "sublist ?line (formatExecutionResult lib r cfg)"
    unfolding formatExecutionResult_def Let_def
    by (rule sublist_Join) simp
  moreover have "sublist (''[exit='' @ Itoa (ExitCode r) @ '' duration='') ?line"
    by (rule prefix_imp_sublist) (simp add: prefix_def)
  ultimately show ?thesis by (rule sublist_chain)
qed

subsection \<open>The handler\<close>

lemma handler_cases:
  "executed (newExecutePythonHandler lib execute cfg user tips args) = [] \<and>
     (\<exists>msg. tool_result (newExecutePythonHandler lib execute cfg user tips args) = CallToolError msg)
   \<or> (\<exists>req. executed (newExecutePythonHandler lib execute cfg user tips args) = [req] \<and>
        (case execute req of
           Inl err \<Rightarrow> tool_result (newExecutePythonHandler lib execute cfg user tips args)
                        = CallToolError (''execution error: '' @ err)
         | Inr result \<Rightarrow>
             tool_result (newExecutePythonHandler lib execute cfg user tips args)
               = CallToolSuccess (formatExecutionResult lib result cfg)
             \<or> tool_result (newExecutePythonHandler lib execute cfg user tips args)
               = CallToolSuccess (formatExecutionResult lib result cfg @ resourceTipMessage)))"
  by (auto simp: newExecutePythonHandler_def Let_def split: sum.splits)

text \<open>
  C8. Once the handler has called \<^verbatim>\<open>Execute\<close>, a result of the sandbox is returned as
  a success whatever its exit code is, and the text of that success contains the exit
  code, the standard output and the standard error; the tool result is an error exactly
  when \<^verbatim>\<open>Execute\<close> returned an error.
\<close>

theorem execute_python_exit_code_is_not_an_error:
  assumes "executed (newExecutePythonHandler lib execute cfg user tips args) = [req]"
  shows "(\<forall>result. execute req = Inr result \<longrightarrow>
            (\<exists>text. tool_result (newExecutePythonHandler lib execute cfg user tips args)
                       = CallToolSuccess text
                \<and> sublist (''[exit='' @ Itoa (ExitCode result) @ '' duration='') text
                \<and> sublist (Stdout result) text \<and> sublist (Stderr result) text))
       \<and> ((\<exists>msg. tool_result (newExecutePythonHandler lib execute cfg user tips args)
                     = CallToolError msg)
            \<longleftrightarrow> (\<exists>err. execute req = Inl err))"
proof -
  let ?h = "newExecutePythonHandler lib execute cfg user tips args"
  from handler_cases [of lib execute cfg user tips args] assms
  have c: "case execute req of
           Inl err \<Rightarrow> tool_result ?h = CallToolError (''execution error: '' @ err)
         | Inr result \<Rightarrow>
             tool_result ?h = CallToolSuccess (formatExecutionResult lib result cfg)
             \<or> tool_result ?h = CallToolSuccess (formatExecutionResult lib result cfg @ resourceTipMessage)"
    by auto
  have contains: "sublist x (formatExecutionResult lib r cfg) \<Longrightarrow>
      sublist x (formatExecutionResult lib r cfg @ resourceTipMessage)" for x r
    by (rule sublist_chain [OF sublist_append_rightI])
  show ?thesis
  proof (cases "execute req")
    case (Inl err)
    with c show ?thesis by simp
  next
    case (Inr result)
    with c show ?thesis
      using format_contains_exit [of result lib cfg] format_contains_stdout [of result lib cfg]
        format_contains_stderr [of result lib cfg]
      by (auto intro: contains)
  qed
qed

theorem execute_python_exit_code_is_not_an_error_witness:
  "executed (newExecutePythonHandler example_lib example_sandbox (example_config 60) None {}
       example_call)
     = [\<lparr>Code = ''raise SystemExit(1)'', Env = buildSandboxEnv (example_config 60),
         ReqTimeout = 60 * Second, SessionID = [], OwnerID = []\<rparr>]
   \<and> (\<exists>text. tool_result (newExecutePythonHandler example_lib example_sandbox
                   (example_config 60) None {} example_call) = CallToolSuccess text
        \<and> sublist ''[exit=1 duration='' text \<and> sublist ''partial'' text
        \<and> sublist ''Traceback'' text)
   \<and> \<not> (\<exists>msg. tool_result (newExecutePythonHandler example_lib example_sandbox
                    (example_config 60) None {} example_call) = CallToolError msg)"
proof -
  let ?req = "\<lparr>Code = ''raise SystemExit(1)'', Env = buildSandboxEnv (example_config 60),
         ReqTimeout = 60 * Second, SessionID = [], OwnerID = []\<rparr>"
  have h: "executed (newExecutePythonHandler example_lib example_sandbox (example_config 60)
       None {} example_call) = [?req]"
    by (simp add: newExecutePythonHandler_def example_call_def RequireString_def GetInt_def
        GetString_def example_config_def MinTimeout_def MaxTimeout_def example_sandbox_def
        Let_def)
  have r: "example_sandbox ?req = Inr failing_run"
    by (simp add: example_sandbox_def)
  have i: "Itoa 1 = ''1''"
    by (simp add: Itoa_def dec_nat.simps)
  show ?thesis
    using h r execute_python_exit_code_is_not_an_error [OF h]
    by (simp add: failing_run_def i)
qed



section \<open>Properties of the rate limiter\<close>

subsection \<open>The client address\<close>

lemmas ipv4_defs = ipv4_lib_def split_host_port_def parse_ipv4_def parse_ipv4_cidr_def parse_octet_def
  ipv4_contains_def trim_ascii_def ascii_space_def digit_val_def example_request_def
lemmas hdr_defs = Header_Get_def CanonicalMIMEHeaderKey_def valid_header_byte_def lower_letters_def upper_letters_def to_upper_def to_lower_def Let_def

text \<open>
  C3. When the peer address is not a trusted proxy, the client address is the peer
  address whatever the request's headers are: every request with the same
  \<^verbatim>\<open>RemoteAddr\<close> gets the same client address and the same rate-limit key. When the peer
  is trusted, the client address is the first entry of \<^verbatim>\<open>X-Forwarded-For\<close> (white space
  stripped) when the header is present and that entry is not empty, else the stripped
  \<^verbatim>\<open>X-Real-IP\<close> when present, else the peer address.
\<close>

theorem getClientIP_resolution:
  "(\<not> isTrustedProxy lib trusted (remoteIP lib r) \<longrightarrow>
       getClientIP lib trusted r = remoteIP lib r
       \<and> (\<forall>r'. RemoteAddr r' = RemoteAddr r \<longrightarrow>
             getClientIP lib trusted r' = getClientIP lib trusted r
             \<and> buildKey (getClientIP lib trusted r') tool = buildKey (getClientIP lib trusted r) tool))
   \<and> (isTrustedProxy lib trusted (remoteIP lib r) \<longrightarrow>
       getClientIP lib trusted r =
         (if Header_Get (Header r) ''X-Forwarded-For'' \<noteq> []
             \<and> TrimSpace lib (first_entry (Header_Get (Header r) ''X-Forwarded-For'')) \<noteq> []
          then TrimSpace lib (first_entry (Header_Get (Header r) ''X-Forwarded-For''))
          else if Header_Get (Header r) ''X-Real-IP'' \<noteq> []
          then TrimSpace lib (Header_Get (Header r) ''X-Real-IP'')
          else remoteIP lib r))"
proof -
  have untrusted: "getClientIP lib trusted q = remoteIP lib q"
    if "\<not> isTrustedProxy lib trusted (remoteIP lib q)" for q
    using that by (simp add: getClientIP_def Let_def)
  have peer: "remoteIP lib r' = remoteIP lib r" if "RemoteAddr r' = RemoteAddr r" for r'
    unfolding remoteIP_def that ..
  have "getClientIP lib trusted r' = getClientIP lib trusted r"
    if "\<not> isTrustedProxy lib trusted (remoteIP lib r)" "RemoteAddr r' = RemoteAddr r" for r'
    using that untrusted [of r] untrusted [of r'] peer [of r'] by simp
  moreover have "getClientIP lib trusted r =
         (if Header_Get (Header r) ''X-Forwarded-For'' \<noteq> []
             \<and> TrimSpace lib (first_entry (Header_Get (Header r) ''X-Forwarded-For'')) \<noteq> []
          then TrimSpace lib (first_entry (Header_Get (Header r) ''X-Forwarded-For''))
          else if Header_Get (Header r) ''X-Real-IP'' \<noteq> []
          then TrimSpace lib (Header_Get (Header r) ''X-Real-IP'')
          else remoteIP lib r)"
    if "isTrustedProxy lib trusted (remoteIP lib r)"
    using that by (simp add: getClientIP_def Let_def)
  ultimately show ?thesis
    using untrusted [of r] by simp
qed

theorem getClientIP_resolution_witness:
  "isTrustedProxy ipv4_lib [''10.0.0.0/8'']
      (remoteIP ipv4_lib (example_request ''10.0.0.5:4711''
         [(''X-Forwarded-For'', [''1.2.3.4, 10.0.0.9''])]))
   \<and> getClientIP ipv4_lib [''10.0.0.0/8'']
        (example_request ''10.0.0.5:4711'' [(''X-Forwarded-For'', [''1.2.3.4, 10.0.0.9''])])
      = ''1.2.3.4''
   \<and> \<not> isTrustedProxy ipv4_lib [''10.0.0.0/8'']
      (remoteIP ipv4_lib (example_request ''8.8.8.8:4711'' []))
   \<and> getClientIP ipv4_lib [''10.0.0.0/8'']
        (example_request ''8.8.8.8:4711'' [(''X-Forwarded-For'', [''1.2.3.4, 10.0.0.9''])])
      = ''8.8.8.8''
   \<and> buildKey (getClientIP ipv4_lib [''10.0.0.0/8'']
        (example_request ''8.8.8.8:4711'' [(''X-Forwarded-For'', [''1.2.3.4, 10.0.0.9''])]))
        ''execute_python''
      = buildKey (getClientIP ipv4_lib [''10.0.0.0/8''] (example_request ''8.8.8.8:4711'' []))
          ''execute_python''"
proof -
  let ?t = "[''10.0.0.0/8'']"
  let ?r1 = "example_request ''10.0.0.5:4711'' [(''X-Forwarded-For'', [''1.2.3.4, 10.0.0.9''])]"
  let ?r2 = "example_request ''8.8.8.8:4711'' []"
  let ?r3 = "example_request ''8.8.8.8:4711'' [(''X-Forwarded-For'', [''1.2.3.4, 10.0.0.9''])]"
  have p1: "remoteIP ipv4_lib ?r1 = ''10.0.0.5''" and p2: "remoteIP ipv4_lib ?r2 = ''8.8.8.8''"
    by (simp_all add: remoteIP_def ipv4_defs)
  have a1: "isTrustedProxy ipv4_lib ?t (remoteIP ipv4_lib ?r1)"
    unfolding p1 by (simp add: isTrustedProxy_def ipv4_defs)
  have a2: "\<not> isTrustedProxy ipv4_lib ?t (remoteIP ipv4_lib ?r2)"
    unfolding p2 by (simp add: isTrustedProxy_def ipv4_defs)
  have x: "Header_Get (Header ?r1) ''X-Forwarded-For'' = ''1.2.3.4, 10.0.0.9''"
    by (simp add: example_request_def hdr_defs)
  have f: "TrimSpace ipv4_lib (first_entry ''1.2.3.4, 10.0.0.9'') = ''1.2.3.4''"
    by (simp add: first_entry_def ipv4_defs)
  have same: "RemoteAddr ?r3 = RemoteAddr ?r2"
    by (simp add: example_request_def)
  from getClientIP_resolution [of ipv4_lib ?t ?r1] a1 x f
  have c1: "getClientIP ipv4_lib ?t ?r1 = ''1.2.3.4''" by simp
  from getClientIP_resolution [of ipv4_lib ?t ?r2 "''execute_python''"] a2 same p2
  have c2: "getClientIP ipv4_lib ?t ?r3 = ''8.8.8.8''"
    and c3: "buildKey (getClientIP ipv4_lib ?t ?r3) ''execute_python''
             = buildKey (getClientIP ipv4_lib ?t ?r2) ''execute_python''"
    by auto
  from a1 a2 c1 c2 c3 show ?thesis by blast
qed

subsection \<open>The in-memory limiter\<close>

text \<open>
  C10. \<^verbatim>\<open>Allow\<close> computes \<^verbatim>\<open>Remaining\<close> from the tokens of the bucket as it is before
  the request is decided: it is the token count of the entry's bucket (the stored one,
  or a new one for a new key), truncated and clamped at 0, whatever the decision is,
  and the bucket stored afterwards is the one the decision left. So a request that
  finds exactly one token reports 1, admitted or not, and a denied request reports the
  clamped count it found.
\<close>

theorem Allow_reports_tokens_before_consuming:
  "(case Allow lib limiters key rule clk of
      (ok, info, limiters') \<Rightarrow>
        (let l = (case limiters key of
                    Some entry \<Rightarrow> limiter entry
                  | None \<Rightarrow> NewLimiter lib (GetRequestsPerSecond rule) (GetBurstSize rule))
         in Remaining info = max 0 (go_int (Tokens lib l (t_tokens clk)))
            \<and> (ok, map_option limiter (limiters' key))
                = (fst (LimiterAllow lib l (t_allow clk)),
                   Some (snd (LimiterAllow lib l (t_allow clk))))
            \<and> 0 \<le> Remaining info
            \<and> (Tokens lib l (t_tokens clk) = 1 \<longrightarrow> Remaining info = 1)))"
proof -
  define l where "l = (case limiters key of
                    Some entry \<Rightarrow> limiter entry
                  | None \<Rightarrow> NewLimiter lib (GetRequestsPerSecond rule) (GetBurstSize rule))"
  obtain entry limiters1 where
    g: "getOrCreateEntry lib limiters key rule clk = (entry, limiters1)"
    by (cases "getOrCreateEntry lib limiters key rule clk")
  have before: "limiter entry = l"
    using g by (auto simp: getOrCreateEntry_def l_def Let_def split: option.splits)
  obtain ok l' where d: "LimiterAllow lib l (t_allow clk) = (ok, l')"
    by (cases "LimiterAllow lib l (t_allow clk)")
  let ?info = "\<lparr>Limit = ratePerSec entry,
                Remaining = max 0 (go_int (Tokens lib l (t_tokens clk))),
                ResetAt = resetAt entry\<rparr>"
  have result: "Allow lib limiters key rule clk
                 = (ok, ?info, limiters1(key \<mapsto> entry\<lparr>limiter := l'\<rparr>))"
    using g d by (simp add: Allow_def before Let_def max_def)
  have one: "max 0 (go_int (Tokens lib l (t_tokens clk))) = 1"
    if "Tokens lib l (t_tokens clk) = 1"
    using that by (simp add: go_int_def)
  show ?thesis
    unfolding result l_def [symmetric] Let_def
    using d one by simp
qed

theorem Allow_reports_tokens_before_consuming_witness:
  "Tokens bucket_lib \<lparr>b_limit = 2, b_burst = 2, b_tokens = 1, b_last = 5 * Second\<rparr>
       (t_tokens (example_clock (5 * Second))) = 1
   \<and> (case Allow bucket_lib one_token_left ''192.168.1.1'' example_rule
             (example_clock (5 * Second)) of
        (ok, info, limiters') \<Rightarrow>
          ok \<and> Remaining info = 1
          \<and> map_option (\<lambda>e. Tokens bucket_lib (limiter e) (5 * Second))
                (limiters' ''192.168.1.1'') = Some 0)"
proof -
  let ?l = "\<lparr>b_limit = 2, b_burst = 2, b_tokens = 1, b_last = 5 * Second\<rparr>"
  have one: "Tokens bucket_lib ?l (t_tokens (example_clock (5 * Second))) = 1"
    by (simp add: bucket_lib_def bucket_advance_def example_clock_def Let_def Second_def)
  have pre: "(case one_token_left ''192.168.1.1'' of
                Some entry \<Rightarrow> limiter entry
              | None \<Rightarrow> NewLimiter bucket_lib (GetRequestsPerSecond example_rule)
                           (GetBurstSize example_rule)) = ?l"
    by (simp add: one_token_left_def)
  have dec: "LimiterAllow bucket_lib ?l (t_allow (example_clock (5 * Second)))
             = (True, \<lparr>b_limit = 2, b_burst = 2, b_tokens = 0, b_last = 5 * Second\<rparr>)"
    by (simp add: bucket_lib_def bucket_allow_def bucket_advance_def example_clock_def
        Let_def Second_def)
  have zero: "Tokens bucket_lib \<lparr>b_limit = 2, b_burst = 2, b_tokens = 0, b_last = 5 * Second\<rparr>
                (5 * Second) = 0"
    by (simp add: bucket_lib_def bucket_advance_def Let_def Second_def)
  show ?thesis
    using Allow_reports_tokens_before_consuming [where lib = bucket_lib
        and limiters = one_token_left and key = "''192.168.1.1''" and rule = example_rule
        and clk = "example_clock (5 * Second)"]
    unfolding pre Let_def
    using one dec zero
    by (auto split: prod.splits)
qed

section \<open>Properties of the CBT upstream handler\<close>

lemma find_app:
  "find P (xs @ ys) = (case find P xs of None \<Rightarrow> find P ys | Some x \<Rightarrow> Some x)"
  by (induction xs) simp_all







section \<open>Properties of the JWT validator\<close>

subsection \<open>The JWKS refresh\<close>

lemma refresh_loop_lookup:
  "refresh_loop lib m ks kid =
     (case find (\<lambda>k. jwk_Kid k = kid \<and> jwk_Kty k = ''RSA'' \<and> jwk_Use k = ''sig''
                      \<and> \<not> isl (parseRSAPublicKey lib k)) (rev ks) of
        None \<Rightarrow> m kid
      | Some k \<Rightarrow> Some (projr (parseRSAPublicKey lib k)))"
proof (induction ks arbitrary: m)
  case Nil
  then show ?case by simp
next
  case (Cons k ks)
  show ?case
    by (auto simp: Cons.IH find_app split: option.split sum.split)
qed

lemma refresh_loop_dom:
  "dom (refresh_loop lib Map.empty ks) =
     {jwk_Kid k |k. k \<in> set ks \<and> jwk_Kty k = ''RSA'' \<and> jwk_Use k = ''sig''
                    \<and> \<not> isl (parseRSAPublicKey lib k)}"
proof -
  have "(refresh_loop lib Map.empty ks kid \<noteq> None) =
        (find (\<lambda>k. jwk_Kid k = kid \<and> jwk_Kty k = ''RSA'' \<and> jwk_Use k = ''sig''
                      \<and> \<not> isl (parseRSAPublicKey lib k)) (rev ks) \<noteq> None)" for kid
    by (simp add: refresh_loop_lookup split: option.split)
  also have "\<dots> kid =
        (\<exists>k. k \<in> set ks \<and> jwk_Kid k = kid \<and> jwk_Kty k = ''RSA'' \<and> jwk_Use k = ''sig''
              \<and> \<not> isl (parseRSAPublicKey lib k))" for kid
    by (auto simp: find_None_iff)
  finally show ?thesis
    by (auto simp: dom_def)
qed

text \<open>
  C6, as the code has it. A refresh succeeds exactly when the response has status 200
  and a body that decodes. After a successful refresh the key map holds exactly the
  entries of that response with \<^verbatim>\<open>kty=RSA\<close> and \<^verbatim>\<open>use=sig\<close> whose modulus and exponent
  decode, each key id with the key of its last such entry; nothing of the previous map
  remains. After a failed refresh the previous map is unchanged.
\<close>

theorem refreshJWKS_replaces_or_keeps:
  "(fst (refreshJWKS lib keys f) = None \<longrightarrow>
      (\<exists>body jwks. f = Fetched 200 body \<and> DecodeJWKS lib body = Some jwks
         \<and> dom (snd (refreshJWKS lib keys f)) =
             {jwk_Kid k |k. k \<in> set jwks \<and> jwk_Kty k = ''RSA'' \<and> jwk_Use k = ''sig''
                            \<and> \<not> isl (parseRSAPublicKey lib k)}
         \<and> (\<forall>kid. snd (refreshJWKS lib keys f) kid =
               map_option (\<lambda>k. projr (parseRSAPublicKey lib k))
                 (find (\<lambda>k. jwk_Kid k = kid \<and> jwk_Kty k = ''RSA'' \<and> jwk_Use k = ''sig''
                             \<and> \<not> isl (parseRSAPublicKey lib k)) (rev jwks)))))
   \<and> (fst (refreshJWKS lib keys f) \<noteq> None \<longrightarrow> snd (refreshJWKS lib keys f) = keys)
   \<and> (fst (refreshJWKS lib keys f) \<noteq> None \<longleftrightarrow>
        (\<forall>body. f = Fetched 200 body \<longrightarrow> DecodeJWKS lib body = None))"
proof -
  have ok: "\<exists>body jwks. f = Fetched 200 body \<and> DecodeJWKS lib body = Some jwks
              \<and> snd (refreshJWKS lib keys f) = refresh_loop lib Map.empty jwks"
    if "fst (refreshJWKS lib keys f) = None"
    using that by (auto simp: refreshJWKS_def split: fetched.splits if_splits option.splits)
  have kept: "snd (refreshJWKS lib keys f) = keys" if "fst (refreshJWKS lib keys f) \<noteq> None"
    using that by (auto simp: refreshJWKS_def split: fetched.splits if_splits option.splits)
  have fails: "fst (refreshJWKS lib keys f) \<noteq> None \<longleftrightarrow>
        (\<forall>body. f = Fetched 200 body \<longrightarrow> DecodeJWKS lib body = None)"
    by (auto simp: refreshJWKS_def split: fetched.splits if_splits option.splits)
  have look: "refresh_loop lib Map.empty jwks kid =
               map_option (\<lambda>k. projr (parseRSAPublicKey lib k))
                 (find (\<lambda>k. jwk_Kid k = kid \<and> jwk_Kty k = ''RSA'' \<and> jwk_Use k = ''sig''
                             \<and> \<not> isl (parseRSAPublicKey lib k)) (rev jwks))" for jwks kid
    by (simp add: refresh_loop_lookup split: option.split)
  show ?thesis
  proof (intro conjI impI)
    assume "fst (refreshJWKS lib keys f) = None"
    from ok [OF this] obtain body jwks where
      f: "f = Fetched 200 body" and d: "DecodeJWKS lib body = Some jwks"
      and s: "snd (refreshJWKS lib keys f) = refresh_loop lib Map.empty jwks"
      by blast
    show "\<exists>body jwks. f = Fetched 200 body \<and> DecodeJWKS lib body = Some jwks
         \<and> dom (snd (refreshJWKS lib keys f)) =
             {jwk_Kid k |k. k \<in> set jwks \<and> jwk_Kty k = ''RSA'' \<and> jwk_Use k = ''sig''
                            \<and> \<not> isl (parseRSAPublicKey lib k)}
         \<and> (\<forall>kid. snd (refreshJWKS lib keys f) kid =
               map_option (\<lambda>k. projr (parseRSAPublicKey lib k))
                 (find (\<lambda>k. jwk_Kid k = kid \<and> jwk_Kty k = ''RSA'' \<and> jwk_Use k = ''sig''
                             \<and> \<not> isl (parseRSAPublicKey lib k)) (rev jwks)))"
      unfolding s using f d refresh_loop_dom [of lib jwks] look [of jwks] by blast
  next
    assume "fst (refreshJWKS lib keys f) \<noteq> None"
    then show "snd (refreshJWKS lib keys f) = keys" by (rule kept)
  next
    show "fst (refreshJWKS lib keys f) \<noteq> None \<longleftrightarrow>
        (\<forall>body. f = Fetched 200 body \<longrightarrow> DecodeJWKS lib body = None)"
      by (rule fails)
  qed
qed

lemma refreshLoop_all_failed:
  assumes "\<forall>f \<in> set fs. \<forall>body. f = Fetched 200 body \<longrightarrow> DecodeJWKS lib body = None"
  shows "refreshLoop lib keys fs = keys"
  using assms
proof (induction fs arbitrary: keys)
  case Nil
  then show ?case by simp
next
  case (Cons f fs)
  have "snd (refreshJWKS lib keys f) = keys"
    using Cons.prems by (auto simp: refreshJWKS_def split: fetched.splits option.splits)
  with Cons show ?case by simp
qed

lemma example_key_parses:
  "parseRSAPublicKey example_jwks_lib
     \<lparr>jwk_Kty = ''RSA'', jwk_Use = ''sig'', jwk_Kid = ''key-1'', jwk_Alg = ''RS256'',
      jwk_N = ''DKE'', jwk_E = ''AQAB''\<rparr> = Inr example_key"
  by code_simp

lemma broken_key_fails:
  "parseRSAPublicKey example_jwks_lib
     \<lparr>jwk_Kty = ''RSA'', jwk_Use = ''sig'', jwk_Kid = ''key-3'', jwk_Alg = ''RS256'',
      jwk_N = ''not base64!'', jwk_E = ''AQAB''\<rparr> = Inl DecodingModulus"
  by code_simp

text \<open>
  C6, as stated, fails: a response whose only key has \<^verbatim>\<open>kty=RSA\<close> and \<^verbatim>\<open>use=sig\<close> but
  a modulus that is not base64url is a successful refresh, the key is not in the map
  afterwards, and the map, which held a key before, is empty.
\<close>

theorem refreshJWKS_drops_undecodable_key:
  "DecodeJWKS example_jwks_lib ''broken'' = Some broken_jwks
   \<and> jwk_Kty (hd broken_jwks) = ''RSA'' \<and> jwk_Use (hd broken_jwks) = ''sig''
   \<and> jwk_Kid (hd broken_jwks) = ''key-3''
   \<and> fst (refreshJWKS example_jwks_lib [''key-1'' \<mapsto> example_key] (Fetched 200 ''broken''))
       = None
   \<and> snd (refreshJWKS example_jwks_lib [''key-1'' \<mapsto> example_key] (Fetched 200 ''broken''))
       ''key-3'' = None
   \<and> snd (refreshJWKS example_jwks_lib [''key-1'' \<mapsto> example_key] (Fetched 200 ''broken''))
       = Map.empty"
  by (simp add: refreshJWKS_def example_jwks_lib_def broken_jwks_def broken_key_fails
      [unfolded example_jwks_lib_def])

theorem refreshJWKS_replaces_or_keeps_witness:
  "fst (refreshJWKS example_jwks_lib Map.empty (Fetched 200 ''jwks'')) = None
   \<and> dom (snd (refreshJWKS example_jwks_lib Map.empty (Fetched 200 ''jwks''))) = {''key-1''}
   \<and> snd (refreshJWKS example_jwks_lib Map.empty (Fetched 200 ''jwks'')) ''key-1''
       = Some example_key
   \<and> fst (refreshJWKS example_jwks_lib [''key-1'' \<mapsto> example_key] (Fetched 503 []))
       = Some (StatusNotOK 503)
   \<and> snd (refreshJWKS example_jwks_lib [''key-1'' \<mapsto> example_key] (Fetched 503 []))
       = [''key-1'' \<mapsto> example_key]"
proof -
  let ?ok = "refreshJWKS example_jwks_lib Map.empty (Fetched 200 ''jwks'')"
  let ?bad = "refreshJWKS example_jwks_lib [''key-1'' \<mapsto> example_key] (Fetched 503 [])"
  have p1: "parseRSAPublicKey example_jwks_lib (example_jwks ! 0) = Inr example_key"
    and p3: "parseRSAPublicKey example_jwks_lib (example_jwks ! 2) = Inl DecodingModulus"
    by code_simp+
  have s: "fst ?ok = None"
    by (simp add: refreshJWKS_def example_jwks_lib_def)
  have d: "DecodeJWKS example_jwks_lib ''jwks'' = Some example_jwks"
    by (simp add: example_jwks_lib_def)
  have e: "fst ?bad = Some (StatusNotOK 503)"
    by (simp add: refreshJWKS_def)
  from refreshJWKS_replaces_or_keeps [of example_jwks_lib Map.empty "Fetched 200 ''jwks''"] s d
  have look: "snd ?ok kid =
      map_option (\<lambda>k. projr (parseRSAPublicKey example_jwks_lib k))
        (find (\<lambda>k. jwk_Kid k = kid \<and> jwk_Kty k = ''RSA'' \<and> jwk_Use k = ''sig''
                    \<and> \<not> isl (parseRSAPublicKey example_jwks_lib k)) (rev example_jwks))" for kid
    by auto
  have l: "snd ?ok kid = (if kid = ''key-1'' then Some example_key else None)" for kid
    unfolding look using p1 p3 by (simp add: example_jwks_def)
  have k: "snd ?bad = [''key-1'' \<mapsto> example_key]"
    using refreshJWKS_replaces_or_keeps
      [of example_jwks_lib "[''key-1'' \<mapsto> example_key]" "Fetched 503 []"] e
    by simp
  have "dom (snd ?ok) = {''key-1''}"
    by (auto simp: dom_def l)
  with s l e k show ?thesis by simp
qed

subsection \<open>Validating a token\<close>

lemma hasAllowedOrg_iff: "hasAllowedOrg groups allowed \<longleftrightarrow> set groups \<inter> set allowed \<noteq> {}"
  by (induction allowed) auto

lemma keyFunc_Inr:
  "keyFunc keys token = Inr key \<longleftrightarrow>
     (\<exists>kid. TokenHeader token ''kid'' = Some (JString kid) \<and> keys kid = Some key)"
  by (auto simp: keyFunc_def split: option.splits json.splits)

lemma jwt_Parse_Inr:
  "jwt_Parse lib keys s = Inr t \<longleftrightarrow>
     (\<exists>token kid key. ParseUnverified lib s = Some token \<and> t = token\<lparr>Valid := True\<rparr>
        \<and> TokenHeader token ''alg'' = Some (JString ''RS256'')
        \<and> TokenHeader token ''kid'' = Some (JString kid) \<and> keys kid = Some key
        \<and> VerifyRS256 lib key s \<and> ValidateClaims lib (Claims token))"
proof
  assume "jwt_Parse lib keys s = Inr t"
  then show "\<exists>token kid key. ParseUnverified lib s = Some token \<and> t = token\<lparr>Valid := True\<rparr>
        \<and> TokenHeader token ''alg'' = Some (JString ''RS256'')
        \<and> TokenHeader token ''kid'' = Some (JString kid) \<and> keys kid = Some key
        \<and> VerifyRS256 lib key s \<and> ValidateClaims lib (Claims token)"
    by (auto simp: jwt_Parse_def keyFunc_Inr split: option.splits if_splits sum.splits)
next
  assume "\<exists>token kid key. ParseUnverified lib s = Some token \<and> t = token\<lparr>Valid := True\<rparr>
        \<and> TokenHeader token ''alg'' = Some (JString ''RS256'')
        \<and> TokenHeader token ''kid'' = Some (JString kid) \<and> keys kid = Some key
        \<and> VerifyRS256 lib key s \<and> ValidateClaims lib (Claims token)"
  then obtain token kid key where p: "ParseUnverified lib s = Some token"
    and t: "t = token\<lparr>Valid := True\<rparr>"
    and a: "TokenHeader token ''alg'' = Some (JString ''RS256'')"
    and k: "TokenHeader token ''kid'' = Some (JString kid)" "keys kid = Some key"
    and v: "VerifyRS256 lib key s" "ValidateClaims lib (Claims token)"
    by blast
  from k have "keyFunc keys token = Inr key" by (simp add: keyFunc_Inr)
  with p t a v show "jwt_Parse lib keys s = Inr t"
    by (simp add: jwt_Parse_def)
qed

text \<open>
  C2, as the code has it. \<^verbatim>\<open>Validate\<close> accepts a token string exactly when it decodes,
  its header names the algorithm RS256 and a key id that is in the current key map, the
  signature verifies under that key, the library's validation of the registered claims
  (expiry, not-before) passes, the issuer equals the configured one when one is
  configured, the configured audience is among the token's audiences when one is
  configured, and the token's groups meet the allowed organisations when a list is
  configured.
\<close>

theorem Validate_JWT_accepts_iff:
  "(\<exists>claims. Validate_JWT lib c keys tokenString = Inr claims) \<longleftrightarrow>
     (\<exists>token kid key.
        ParseUnverified lib tokenString = Some token
        \<and> TokenHeader token ''alg'' = Some (JString ''RS256'')
        \<and> TokenHeader token ''kid'' = Some (JString kid) \<and> keys kid = Some key
        \<and> VerifyRS256 lib key tokenString
        \<and> ValidateClaims lib (Claims token)
        \<and> (cfg_Issuer c \<noteq> [] \<longrightarrow> getString (Claims token) ''iss'' = cfg_Issuer c)
        \<and> (cfg_Audience c \<noteq> [] \<longrightarrow> cfg_Audience c \<in> set (extractAudience (Claims token)))
        \<and> (cfg_AllowedOrgs c \<noteq> [] \<longrightarrow>
             set (claim_groups (Claims token)) \<inter> set (cfg_AllowedOrgs c) \<noteq> {}))"
  (is "?accepted \<longleftrightarrow> ?conditions")
proof
  assume ?accepted
  then obtain claims where acc: "Validate_JWT lib c keys tokenString = Inr claims" ..
  then obtain t where t: "jwt_Parse lib keys tokenString = Inr t"
    by (auto simp: Validate_JWT_def split: sum.splits)
  then obtain token kid key where p: "ParseUnverified lib tokenString = Some token"
    and tt: "t = token\<lparr>Valid := True\<rparr>"
    and a: "TokenHeader token ''alg'' = Some (JString ''RS256'')"
    and k: "TokenHeader token ''kid'' = Some (JString kid)" "keys kid = Some key"
    and v: "VerifyRS256 lib key tokenString" "ValidateClaims lib (Claims token)"
    unfolding jwt_Parse_Inr by blast
  from acc t tt have
    "(cfg_Issuer c \<noteq> [] \<longrightarrow> getString (Claims token) ''iss'' = cfg_Issuer c)
     \<and> (cfg_Audience c \<noteq> [] \<longrightarrow> cfg_Audience c \<in> set (extractAudience (Claims token)))
     \<and> (cfg_AllowedOrgs c \<noteq> [] \<longrightarrow>
             set (claim_groups (Claims token)) \<inter> set (cfg_AllowedOrgs c) \<noteq> {})"
    by (auto simp: Validate_JWT_def Let_def containsAudience_def hasAllowedOrg_iff
        split: if_splits)
  with p a k v show ?conditions by blast
next
  assume ?conditions
  then obtain token kid key where p: "ParseUnverified lib tokenString = Some token"
    and a: "TokenHeader token ''alg'' = Some (JString ''RS256'')"
    and k: "TokenHeader token ''kid'' = Some (JString kid)" "keys kid = Some key"
    and v: "VerifyRS256 lib key tokenString" "ValidateClaims lib (Claims token)"
    and i: "cfg_Issuer c \<noteq> [] \<longrightarrow> getString (Claims token) ''iss'' = cfg_Issuer c"
    and u: "cfg_Audience c \<noteq> [] \<longrightarrow> cfg_Audience c \<in> set (extractAudience (Claims token))"
    and g: "cfg_AllowedOrgs c \<noteq> [] \<longrightarrow>
             set (claim_groups (Claims token)) \<inter> set (cfg_AllowedOrgs c) \<noteq> {}"
    by blast
  from p a k v have "jwt_Parse lib keys tokenString = Inr (token\<lparr>Valid := True\<rparr>)"
    unfolding jwt_Parse_Inr by blast
  with i u g show ?accepted
    by (auto simp: Validate_JWT_def Let_def containsAudience_def hasAllowedOrg_iff)
qed


lemmas example_jwt_defs = example_jwt_lib_def example_jwt_config_def example_token_def
  getString_def claim_groups_def extractAudience_def

text \<open>
  C2, as stated, fails: the four conditions of the claim do not suffice. The expired
  token is signed by a key of the map, has the configured issuer and a group that is
  allowed, no audience is configured, and \<^verbatim>\<open>Validate\<close> rejects it, because the library
  validates the expiry while parsing.
\<close>

theorem Validate_JWT_rejects_expired_token:
  "Validate_JWT example_jwt_lib example_jwt_config [''key-1'' \<mapsto> example_key] ''expired.token''
     = Inl (ParsingToken ErrTokenInvalidClaims)
   \<and> ParseUnverified example_jwt_lib ''expired.token'' = Some (example_token ''https://idp'' 500)
   \<and> TokenHeader (example_token ''https://idp'' 500) ''kid'' = Some (JString ''key-1'')
   \<and> [''key-1'' \<mapsto> example_key] ''key-1'' = Some example_key
   \<and> VerifyRS256 example_jwt_lib example_key ''expired.token''
   \<and> getString (Claims (example_token ''https://idp'' 500)) ''iss''
       = cfg_Issuer example_jwt_config
   \<and> cfg_Audience example_jwt_config = []
   \<and> set (claim_groups (Claims (example_token ''https://idp'' 500)))
         \<inter> set (cfg_AllowedOrgs example_jwt_config) = {''ethpandaops''}"
  by (simp add: Validate_JWT_def jwt_Parse_def keyFunc_def example_jwt_defs)

theorem Validate_JWT_accepts_iff_witness:
  "(\<exists>claims. Validate_JWT example_jwt_lib example_jwt_config [''key-1'' \<mapsto> example_key]
       ''good.token'' = Inr claims)
   \<and> \<not> (\<exists>claims. Validate_JWT example_jwt_lib example_jwt_config [''key-1'' \<mapsto> example_key]
       ''evil.token'' = Inr claims)"
proof -
  let ?keys = "[''key-1'' \<mapsto> example_key]"
  have good: "\<exists>token kid key.
        ParseUnverified example_jwt_lib ''good.token'' = Some token
        \<and> TokenHeader token ''alg'' = Some (JString ''RS256'')
        \<and> TokenHeader token ''kid'' = Some (JString kid) \<and> ?keys kid = Some key
        \<and> VerifyRS256 example_jwt_lib key ''good.token''
        \<and> ValidateClaims example_jwt_lib (Claims token)
        \<and> (cfg_Issuer example_jwt_config \<noteq> [] \<longrightarrow>
              getString (Claims token) ''iss'' = cfg_Issuer example_jwt_config)
        \<and> (cfg_Audience example_jwt_config \<noteq> [] \<longrightarrow>
              cfg_Audience example_jwt_config \<in> set (extractAudience (Claims token)))
        \<and> (cfg_AllowedOrgs example_jwt_config \<noteq> [] \<longrightarrow>
              set (claim_groups (Claims token)) \<inter> set (cfg_AllowedOrgs example_jwt_config) \<noteq> {})"
    by (rule exI [of _ "example_token ''https://idp'' 2000"], rule exI [of _ "''key-1''"],
        rule exI [of _ example_key]) (simp add: example_jwt_defs)
  have evil: "ParseUnverified example_jwt_lib ''evil.token''
                = Some (example_token ''https://evil'' 2000)"
    and iss: "getString (Claims (example_token ''https://evil'' 2000)) ''iss'' = ''https://evil''"
    and conf: "cfg_Issuer example_jwt_config = ''https://idp''"
    by (simp_all add: example_jwt_defs)
  have a: "\<exists>claims. Validate_JWT example_jwt_lib example_jwt_config ?keys ''good.token''
             = Inr claims"
    using good Validate_JWT_accepts_iff [of example_jwt_lib example_jwt_config ?keys
        "''good.token''"]
    by blast
  have b: "\<not> (\<exists>claims. Validate_JWT example_jwt_lib example_jwt_config ?keys ''evil.token''
             = Inr claims)"
    unfolding Validate_JWT_accepts_iff [of example_jwt_lib example_jwt_config ?keys
        "''evil.token''"]
    using evil iss conf by auto
  from a b show ?thesis ..
qed

section \<open>Properties of the authenticators\<close>

text \<open>
  C4, as the code has it. Both middlewares answer every request that fails
  authentication with 401. The body names a missing header and a header that does
  not start with \<^verbatim>\<open>Bearer\<close>; for a token that fails validation the body is the line
  \<^verbatim>\<open>invalid or expired token\<close>, whatever the error of the validation is.
\<close>

theorem auth_failure_is_401:
  "(Header_Get (Header r) ''Authorization'' = [] \<longrightarrow>
      tokenAuthenticator_Middleware store handler r
        = \<lparr>StatusCode = 401, Body = ''missing Authorization header'' @ [NL]\<rparr>
      \<and> jwtAuthenticator_Middleware validate handler r
        = \<lparr>StatusCode = 401, Body = ''missing Authorization header'' @ [NL]\<rparr>)
   \<and> (Header_Get (Header r) ''Authorization'' \<noteq> []
       \<and> \<not> prefix ''Bearer '' (Header_Get (Header r) ''Authorization'') \<longrightarrow>
      tokenAuthenticator_Middleware store handler r
        = \<lparr>StatusCode = 401, Body = ''invalid Authorization header format'' @ [NL]\<rparr>
      \<and> jwtAuthenticator_Middleware validate handler r
        = \<lparr>StatusCode = 401, Body = ''invalid Authorization header format'' @ [NL]\<rparr>)
   \<and> (Header_Get (Header r) ''Authorization'' = ''Bearer '' @ token \<longrightarrow>
      (store token = [] \<longrightarrow>
         tokenAuthenticator_Middleware store handler r
           = \<lparr>StatusCode = 401, Body = ''invalid or expired token'' @ [NL]\<rparr>)
      \<and> (\<forall>err. validate token = Inl err \<longrightarrow>
         jwtAuthenticator_Middleware validate handler r
           = \<lparr>StatusCode = 401, Body = ''invalid or expired token'' @ [NL]\<rparr>))"
  by (auto simp: tokenAuthenticator_Middleware_def jwtAuthenticator_Middleware_def Let_def
      http_Error_def TrimPrefix_def)

lemmas auth_eval = Header_Get_def CanonicalMIMEHeaderKey_def valid_header_byte_def
  lower_letters_def upper_letters_def to_upper_def to_lower_def Let_def example_request_def

text \<open>
  C4, as stated, fails: the body is not the generic one for a request without the
  header, nor for a header in another format.
\<close>

theorem missing_header_has_its_own_body:
  "jwtAuthenticator_Middleware example_validator example_next
       (example_request ''10.0.0.5:4711'' [])
     = \<lparr>StatusCode = 401, Body = ''missing Authorization header'' @ [NL]\<rparr>
   \<and> tokenAuthenticator_Middleware example_token_store example_next
       (example_request ''10.0.0.5:4711'' [(''Authorization'', [''Basic dXNlcjpwdw''])])
     = \<lparr>StatusCode = 401, Body = ''invalid Authorization header format'' @ [NL]\<rparr>
   \<and> ''missing Authorization header'' @ [NL] \<noteq> ''invalid or expired token'' @ [NL]
   \<and> ''invalid Authorization header format'' @ [NL] \<noteq> ''invalid or expired token'' @ [NL]"
  by (simp add: jwtAuthenticator_Middleware_def tokenAuthenticator_Middleware_def
      http_Error_def auth_eval)


theorem auth_failure_is_401_witness:
  "tokenAuthenticator_Middleware example_token_store example_next
       (example_request ''10.0.0.5:4711'' [])
     = \<lparr>StatusCode = 401, Body = ''missing Authorization header'' @ [NL]\<rparr>
   \<and> jwtAuthenticator_Middleware example_validator example_next
       (example_request ''10.0.0.5:4711'' [(''Authorization'', [''Basic dXNlcjpwdw''])])
     = \<lparr>StatusCode = 401, Body = ''invalid Authorization header format'' @ [NL]\<rparr>
   \<and> tokenAuthenticator_Middleware example_token_store example_next
       (example_request ''10.0.0.5:4711'' [(''Authorization'', [''Bearer tok-0''])])
     = \<lparr>StatusCode = 401, Body = ''invalid or expired token'' @ [NL]\<rparr>
   \<and> jwtAuthenticator_Middleware example_validator example_next
       (example_request ''10.0.0.5:4711'' [(''Authorization'', [''Bearer expired.token''])])
     = \<lparr>StatusCode = 401, Body = ''invalid or expired token'' @ [NL]\<rparr>
   \<and> jwtAuthenticator_Middleware example_validator example_next
       (example_request ''10.0.0.5:4711'' [(''Authorization'', [''Bearer evil.token''])])
     = \<lparr>StatusCode = 401, Body = ''invalid or expired token'' @ [NL]\<rparr>"
proof -
  let ?r0 = "example_request ''10.0.0.5:4711'' []"
  let ?r1 = "example_request ''10.0.0.5:4711'' [(''Authorization'', [''Basic dXNlcjpwdw''])]"
  let ?r2 = "example_request ''10.0.0.5:4711'' [(''Authorization'', [''Bearer tok-0''])]"
  let ?r3 = "example_request ''10.0.0.5:4711'' [(''Authorization'', [''Bearer expired.token''])]"
  let ?r4 = "example_request ''10.0.0.5:4711'' [(''Authorization'', [''Bearer evil.token''])]"
  have h0: "Header_Get (Header ?r0) ''Authorization'' = []"
    and h1: "Header_Get (Header ?r1) ''Authorization'' = ''Basic dXNlcjpwdw''"
    and h2: "Header_Get (Header ?r2) ''Authorization'' = ''Bearer '' @ ''tok-0''"
    and h3: "Header_Get (Header ?r3) ''Authorization'' = ''Bearer '' @ ''expired.token''"
    and h4: "Header_Get (Header ?r4) ''Authorization'' = ''Bearer '' @ ''evil.token''"
    by (simp_all add: auth_eval)
  have n1: "\<not> prefix ''Bearer '' ''Basic dXNlcjpwdw''"
    by simp
  have s2: "example_token_store ''tok-0'' = []"
    by (simp add: example_token_store_def)
  have v3: "example_validator ''expired.token'' = Inl (ParsingToken ErrTokenInvalidClaims)"
    and v4: "example_validator ''evil.token''
               = Inl (InvalidIssuer ''https://evil'' ''https://idp'')"
    by (simp_all add: example_validator_def Validate_JWT_def jwt_Parse_def keyFunc_def
        example_jwt_defs)
  have c0: "tokenAuthenticator_Middleware example_token_store example_next ?r0
     = \<lparr>StatusCode = 401, Body = ''missing Authorization header'' @ [NL]\<rparr>"
    using auth_failure_is_401 [where r = ?r0 and store = example_token_store
        and validate = example_validator and handler = example_next] h0
    by simp
  have c1: "jwtAuthenticator_Middleware example_validator example_next ?r1
     = \<lparr>StatusCode = 401, Body = ''invalid Authorization header format'' @ [NL]\<rparr>"
    using auth_failure_is_401 [where r = ?r1 and validate = example_validator
        and store = example_token_store and handler = example_next] h1 n1
    by simp
  have c2: "tokenAuthenticator_Middleware example_token_store example_next ?r2
     = \<lparr>StatusCode = 401, Body = ''invalid or expired token'' @ [NL]\<rparr>"
    using auth_failure_is_401 [where r = ?r2 and store = example_token_store
        and validate = example_validator and handler = example_next and token = "''tok-0''"] h2 s2
    by simp
  have c3: "jwtAuthenticator_Middleware example_validator example_next ?r3
     = \<lparr>StatusCode = 401, Body = ''invalid or expired token'' @ [NL]\<rparr>"
    using auth_failure_is_401 [where r = ?r3 and validate = example_validator
        and store = example_token_store and handler = example_next and token = "''expired.token''"] h3 v3
    by simp
  have c4: "jwtAuthenticator_Middleware example_validator example_next ?r4
     = \<lparr>StatusCode = 401, Body = ''invalid or expired token'' @ [NL]\<rparr>"
    using auth_failure_is_401 [where r = ?r4 and validate = example_validator
        and store = example_token_store and handler = example_next and token = "''evil.token''"] h4 v4
    by simp
  from c0 c1 c2 c3 c4 show ?thesis by blast
qed
end
